theory Spec2Isabelle
  imports
    Main
    "HOL-Library.Word"
    "HOL-Library.Signed_Division"
    "HOL-Library.AList"
begin

unbundle bit_operations_syntax

section \<open>Abstract syntax (package ast)\<close>

text \<open>
  The Go AST uses interface polymorphism; here statements and expressions are two
  mutually recursive datatypes.  A node's originating token is only read by the
  \<^verbatim>\<open>String()\<close> and \<^verbatim>\<open>TokenLiteral()\<close> printers and is left out.  An
  \<^verbatim>\<open>*ast.Identifier\<close> parameter is represented by its \<^verbatim>\<open>Value\<close>.

  \<^verbatim>\<open>HashLiteral.Pairs\<close> is a Go \<^verbatim>\<open>map[Expression]Expression\<close> keyed by
  the identity of the key node, so every parsed pair is an entry of its own.  The list
  below holds these entries in the order in which the parser inserted them; a Go map
  does not keep that order (see \<open>range_order\<close> below).
\<close>

datatype expr =
    Identifier string
  | IntegerLiteral "64 word"
  | StringLiteral string
  | Boolean_ast bool
  | ArrayLiteral "expr list"
  | HashLiteral "(expr \<times> expr) list"
  | PrefixExpression string expr
  | InfixExpression expr string expr
  | IfExpression expr "stmt list" "stmt list option"
  | FunctionLiteral "string list" "stmt list"
  | CallExpression expr "expr list"
  | IndexExpression expr expr
and stmt =
    LetStatement string expr
  | ReturnStatement expr
  | ExpressionStatement expr
  | BlockStatement "stmt list"

datatype node = Program "stmt list" | Stmt stmt | Expr expr

section \<open>Runtime values (package object)\<close>

type_synonym addr = nat

record HashKey =
  KeyType :: string
  KeyValue :: "64 word"

text \<open>
  A Go \<^verbatim>\<open>*Environment\<close>: the address of its \<^verbatim>\<open>store\<close> map and its
  \<^verbatim>\<open>outer\<close> pointer, which is never reassigned after construction.
\<close>

datatype Environment = Environment (store: addr) (outer: "Environment option")

text \<open>
  Objects are Go pointers.  The evaluator compares pointers (\<^verbatim>\<open>left == right\<close>),
  so every object whose identity can be observed carries the address it was allocated
  at.  Booleans and null only exist as the singletons \<^verbatim>\<open>TRUE\<close>, \<^verbatim>\<open>FALSE\<close>
  and \<^verbatim>\<open>NULL\<close>, a builtin only as the entry of the \<^verbatim>\<open>builtins\<close> table under
  its name.  A Go interface value of type \<^verbatim>\<open>object.Object\<close> is an \<open>obj option\<close>,
  \<open>None\<close> being \<^verbatim>\<open>nil\<close>.
\<close>

datatype obj =
    Integer "64 word"
  | Boolean bool
  | String string
  | Null
  | Array addr "obj option list"
  | Hash addr "(HashKey \<times> (obj \<times> obj option)) list"
  | Function addr "string list" "stmt list" Environment
  | Builtin string
  | ReturnValue addr "obj option"
  | Error string

abbreviation INTEGER_OBJ :: string where "INTEGER_OBJ \<equiv> ''INTEGER''"
abbreviation BOOLEAN_OBJ :: string where "BOOLEAN_OBJ \<equiv> ''BOOLEAN''"
abbreviation STRING_OBJ :: string where "STRING_OBJ \<equiv> ''STRING''"
abbreviation ARRAY_OBJ :: string where "ARRAY_OBJ \<equiv> ''ARRAY''"
abbreviation HASH_OBJ :: string where "HASH_OBJ \<equiv> ''HASH''"
abbreviation NULL_OBJ :: string where "NULL_OBJ \<equiv> ''NULL''"
abbreviation RETURN_VALUE_OBJ :: string where "RETURN_VALUE_OBJ \<equiv> ''RETURN_VALUE''"
abbreviation ERROR_OBJ :: string where "ERROR_OBJ \<equiv> ''ERROR''"
abbreviation FUNCTION_OBJ :: string where "FUNCTION_OBJ \<equiv> ''FUNCTION''"
abbreviation BUILTIN_OBJ :: string where "BUILTIN_OBJ \<equiv> ''BUILTIN''"

fun Type :: "obj \<Rightarrow> string" where
  "Type (Integer i) = INTEGER_OBJ"
| "Type (Boolean b) = BOOLEAN_OBJ"
| "Type (String s) = STRING_OBJ"
| "Type Null = NULL_OBJ"
| "Type (Array a es) = ARRAY_OBJ"
| "Type (Hash a ps) = HASH_OBJ"
| "Type (Function a ps b e) = FUNCTION_OBJ"
| "Type (Builtin f) = BUILTIN_OBJ"
| "Type (ReturnValue a v) = RETURN_VALUE_OBJ"
| "Type (Error m) = ERROR_OBJ"

abbreviation TRUE :: obj where "TRUE \<equiv> Boolean True"
abbreviation FALSE :: obj where "FALSE \<equiv> Boolean False"
abbreviation NULL :: obj where "NULL \<equiv> Null"

subsection \<open>Hash keys\<close>

text \<open>
  \<^verbatim>\<open>hash/fnv\<close>'s \<^verbatim>\<open>New64a\<close> (Go standard library): FNV-1a on 64 bits, starting from
  the offset basis, for every byte \<^verbatim>\<open>hash ^= byte; hash *= prime64\<close>.
\<close>

definition offset64 :: "64 word" where
  "offset64 = 14695981039346656037"

definition prime64 :: "64 word" where
  "prime64 = 1099511628211"

definition byte_of :: "char \<Rightarrow> 64 word" where
  "byte_of c = of_nat (of_char c)"

fun fnv64a_Write :: "64 word \<Rightarrow> string \<Rightarrow> 64 word" where
  "fnv64a_Write h [] = h"
| "fnv64a_Write h (c # cs) = fnv64a_Write ((h XOR byte_of c) * prime64) cs"

definition fnv64a_Sum64 :: "string \<Rightarrow> 64 word" where
  "fnv64a_Sum64 s = fnv64a_Write offset64 s"

text \<open>
  \<^verbatim>\<open>HashKey()\<close> of the three \<^verbatim>\<open>Hashable\<close> types; \<open>None\<close> for an object whose
  type does not implement the interface (the type assertion \<^verbatim>\<open>key.(object.Hashable)\<close>
  fails).  \<^verbatim>\<open>uint64(i.Value)\<close> keeps the 64 bits of the integer.
\<close>

fun HashKey_of :: "obj \<Rightarrow> HashKey option" where
  "HashKey_of (Integer i) = Some \<lparr>KeyType = INTEGER_OBJ, KeyValue = i\<rparr>"
| "HashKey_of (Boolean b) = Some \<lparr>KeyType = BOOLEAN_OBJ, KeyValue = (if b then 1 else 0)\<rparr>"
| "HashKey_of (String s) = Some \<lparr>KeyType = STRING_OBJ, KeyValue = fnv64a_Sum64 s\<rparr>"
| "HashKey_of _ = None"

section \<open>Execution state\<close>

text \<open>
  Go panics that the evaluator can raise; a panic ends the run.
\<close>

datatype panic = NilDereference | IndexOutOfRange | DivideByZero | TypeAssertion

text \<open>
  \<open>stores\<close> is the heap of environment stores (\<^verbatim>\<open>map[string]Object\<close>, one per
  environment, empty until written), \<open>next_addr\<close> the next fresh address.  The order
  in which \<^verbatim>\<open>range\<close> visits the entries of a Go map is chosen by the runtime and may
  change from one loop to the next: \<open>range_order\<close> is that choice, as a function of
  the number of map loops executed so far (\<open>ticks\<close>) and of the entries.
\<close>

record state =
  stores :: "addr \<Rightarrow> string \<Rightarrow> obj option option"
  next_addr :: addr
  ticks :: nat
  range_order :: "nat \<Rightarrow> (expr \<times> expr) list \<Rightarrow> (expr \<times> expr) list"

text \<open>
  The result of a run with a bound on the call depth: the bound was reached, the program
  panicked, or it returned a value in a new state.
\<close>

datatype 'a outcome = OutOfFuel | Panic panic | Ok 'a state

definition lift :: "panic + 'a \<Rightarrow> state \<Rightarrow> 'a outcome" where
  "lift r st = (case r of Inl p \<Rightarrow> Panic p | Inr v \<Rightarrow> Ok v st)"

subsection \<open>Environments\<close>

text \<open>
  Modelled from the spec: the file of package object that defines \<^verbatim>\<open>Environment\<close>,
  \<^verbatim>\<open>NewEnclosedEnvironment\<close>, \<^verbatim>\<open>Get\<close> and \<^verbatim>\<open>Set\<close> is not among the
  sources.  The spec: an environment is a mapping from name to value together with an
  optional outer environment reference; lookups walk outward until the name is found or
  the chain ends; writes always target the innermost frame.
\<close>

definition NewEnclosedEnvironment :: "Environment \<Rightarrow> state \<Rightarrow> Environment \<times> state" where
  "NewEnclosedEnvironment out st =
     (Environment (next_addr st) (Some out),
      st\<lparr>stores := (stores st)(next_addr st := Map.empty), next_addr := Suc (next_addr st)\<rparr>)"

text \<open>Modelled from the spec: \<^verbatim>\<open>Get\<close>, see above; \<open>None\<close> is \<^verbatim>\<open>ok == false\<close>.\<close>

fun Get :: "state \<Rightarrow> Environment \<Rightarrow> string \<Rightarrow> obj option option" where
  "Get st (Environment a out) name =
     (case stores st a name of
        Some v \<Rightarrow> Some v
      | None \<Rightarrow> (case out of None \<Rightarrow> None | Some e \<Rightarrow> Get st e name))"

text \<open>Modelled from the spec: \<^verbatim>\<open>Set\<close>, see above.\<close>

definition Set :: "Environment \<Rightarrow> string \<Rightarrow> obj option \<Rightarrow> state \<Rightarrow> state" where
  "Set e name val st = st\<lparr>stores := (stores st)(store e := (stores st (store e))(name \<mapsto> val))\<rparr>"

section \<open>Messages\<close>

text \<open>
  The format strings of the source are Chinese text; the constants below are their
  UTF-8 bytes, as Go's \<^verbatim>\<open>fmt.Sprintf\<close> writes them.  In order: ``unknown operation: '',
  ``type mismatch: '', ``variable undefined: '', ``not a function: '', ``index access not
  supported, '', ``cannot serve as hash key, '', ``wrong number of arguments, need 1 (2),
  actual'', the counter word that ends that message, and ``unsupported argument type'',
  which ends in the full-width comma U+FF0C.
\<close>

definition msg_unknown_operation :: string where
  "msg_unknown_operation =
     [CHR 0xE6, CHR 0x9C, CHR 0xAA, CHR 0xE7, CHR 0x9F, CHR 0xA5, CHR 0xE7, CHR 0x9A, CHR 0x84,
      CHR 0xE6, CHR 0x93, CHR 0x8D, CHR 0xE4, CHR 0xBD, CHR 0x9C, CHR '':'', CHR '' '']"

definition msg_type_mismatch :: string where
  "msg_type_mismatch =
     [CHR 0xE7, CHR 0xB1, CHR 0xBB, CHR 0xE5, CHR 0x9E, CHR 0x8B, CHR 0xE4, CHR 0xB8, CHR 0x8D,
      CHR 0xE5, CHR 0x8C, CHR 0xB9, CHR 0xE9, CHR 0x85, CHR 0x8D, CHR '':'', CHR '' '']"

definition msg_identifier_undefined :: string where
  "msg_identifier_undefined =
     [CHR 0xE5, CHR 0x8F, CHR 0x98, CHR 0xE9, CHR 0x87, CHR 0x8F, CHR 0xE6, CHR 0x9C, CHR 0xAA,
      CHR 0xE5, CHR 0xAE, CHR 0x9A, CHR 0xE4, CHR 0xB9, CHR 0x89, CHR '':'', CHR '' '']"

definition msg_not_a_function :: string where
  "msg_not_a_function =
     [CHR 0xE4, CHR 0xB8, CHR 0x8D, CHR 0xE6, CHR 0x98, CHR 0xAF, CHR 0xE4, CHR 0xB8, CHR 0x80,
      CHR 0xE4, CHR 0xB8, CHR 0xAA, CHR 0xE5, CHR 0x87, CHR 0xBD, CHR 0xE6, CHR 0x95, CHR 0xB0,
      CHR '':'', CHR '' '']"

definition msg_index_unsupported :: string where
  "msg_index_unsupported =
     [CHR 0xE4, CHR 0xB8, CHR 0x8D, CHR 0xE6, CHR 0x94, CHR 0xAF, CHR 0xE6, CHR 0x8C, CHR 0x81,
      CHR 0xE8, CHR 0xAE, CHR 0xBF, CHR 0xE9, CHR 0x97, CHR 0xAE, CHR 0xE7, CHR 0xB4, CHR 0xA2,
      CHR 0xE5, CHR 0xBC, CHR 0x95, CHR '','', CHR '' '']"

definition msg_unusable_hash_key :: string where
  "msg_unusable_hash_key =
     [CHR 0xE6, CHR 0x97, CHR 0xA0, CHR 0xE6, CHR 0xB3, CHR 0x95, CHR 0xE4, CHR 0xBD, CHR 0x9C,
      CHR 0xE4, CHR 0xB8, CHR 0xBA, CHR 0xE5, CHR 0x93, CHR 0x88, CHR 0xE5, CHR 0xB8, CHR 0x8C,
      CHR 0xE7, CHR 0x9A, CHR 0x84, CHR 0xE9, CHR 0x94, CHR 0xAE, CHR '','', CHR '' '']"

definition msg_wrong_arity :: "string \<Rightarrow> string" where
  "msg_wrong_arity want =
     [CHR 0xE5, CHR 0x85, CHR 0xA5, CHR 0xE5, CHR 0x8F, CHR 0x82, CHR 0xE6, CHR 0x95, CHR 0xB0,
      CHR 0xE9, CHR 0x87, CHR 0x8F, CHR 0xE4, CHR 0xB8, CHR 0x8D, CHR 0xE6, CHR 0xAD, CHR 0xA3,
      CHR 0xE7, CHR 0xA1, CHR 0xAE, CHR 0xEF, CHR 0xBC, CHR 0x8C, CHR 0xE9, CHR 0x9C, CHR 0x80,
      CHR 0xE8, CHR 0xA6, CHR 0x81] @ want @
     [CHR 0xE4, CHR 0xB8, CHR 0xAA, CHR 0xEF, CHR 0xBC, CHR 0x8C, CHR 0xE5, CHR 0xAE, CHR 0x9E,
      CHR 0xE9, CHR 0x99, CHR 0x85]"

definition msg_counter :: string where
  "msg_counter = [CHR 0xE4, CHR 0xB8, CHR 0xAA]"

definition msg_unsupported_argument :: string where
  "msg_unsupported_argument =
     [CHR 0xE4, CHR 0xB8, CHR 0x8D, CHR 0xE6, CHR 0x94, CHR 0xAF, CHR 0xE6, CHR 0x8C, CHR 0x81,
      CHR 0xE7, CHR 0x9A, CHR 0x84, CHR 0xE5, CHR 0x8F, CHR 0x82, CHR 0xE6, CHR 0x95, CHR 0xB0,
      CHR 0xE7, CHR 0xB1, CHR 0xBB, CHR 0xE5, CHR 0x9E, CHR 0x8B, CHR 0xEF, CHR 0xBC, CHR 0x8C]"

text \<open>The verb \<^verbatim>\<open>%d\<close> on a length: its decimal digits.\<close>

fun fmt_d :: "nat \<Rightarrow> string" where
  "fmt_d n = (if n < 10 then [char_of (48 + n)] else fmt_d (n div 10) @ [char_of (48 + n mod 10)])"

definition newError :: "string \<Rightarrow> obj" where
  "newError message = Error message"

fun isError :: "obj option \<Rightarrow> bool" where
  "isError None = False"
| "isError (Some ob) = (Type ob = ERROR_OBJ)"

section \<open>Operators (package evaluator)\<close>

definition nativeBoolToBooleanObject :: "bool \<Rightarrow> obj" where
  "nativeBoolToBooleanObject input = (if input then TRUE else FALSE)"

text \<open>
  The \<^verbatim>\<open>switch right\<close> compares pointers with the three singletons, so \<^verbatim>\<open>nil\<close>
  takes the default branch.
\<close>

fun evalBongOperatorExpression :: "obj option \<Rightarrow> obj" where
  "evalBongOperatorExpression (Some (Boolean True)) = FALSE"
| "evalBongOperatorExpression (Some (Boolean False)) = TRUE"
| "evalBongOperatorExpression (Some Null) = TRUE"
| "evalBongOperatorExpression _ = FALSE"

text \<open>
  For \<^verbatim>\<open>nil\<close> the guard \<^verbatim>\<open>right == nil\<close> holds and the error message is built
  from \<^verbatim>\<open>right.Type()\<close>, which panics.
\<close>

fun evalMinusPrefixOperatorExpression :: "obj option \<Rightarrow> panic + obj option" where
  "evalMinusPrefixOperatorExpression None = Inl NilDereference"
| "evalMinusPrefixOperatorExpression (Some (Integer v)) = Inr (Some (Integer (- v)))"
| "evalMinusPrefixOperatorExpression (Some ob) =
     Inr (Some (newError (msg_unknown_operation @ ''-'' @ Type ob)))"

definition evalPrefixExpression :: "string \<Rightarrow> obj option \<Rightarrow> panic + obj option" where
  "evalPrefixExpression operator right =
     (if operator = ''!'' then Inr (Some (evalBongOperatorExpression right))
      else if operator = ''-'' then evalMinusPrefixOperatorExpression right
      else (case right of
              None \<Rightarrow> Inl NilDereference
            | Some ob \<Rightarrow> Inr (Some (newError (msg_unknown_operation @ operator @ Type ob)))))"

text \<open>
  Go's \<^verbatim>\<open>left == right\<close> on two interface values: the same dynamic type and the same
  pointer.  Integers, strings and errors are allocated afresh by every evaluation; the
  evaluator never compares two of the same type by pointer
  (\<open>evalInfixExpression\<close> handles two integers and two strings before, and an error never
  reaches an operator), and their rows are \<open>False\<close>.
\<close>

definition same_object :: "obj option \<Rightarrow> obj option \<Rightarrow> bool" where
  "same_object left right =
     (case left of
        None \<Rightarrow> (case right of None \<Rightarrow> True | Some r \<Rightarrow> False)
      | Some (Boolean a) \<Rightarrow> (case right of Some (Boolean b) \<Rightarrow> a = b | _ \<Rightarrow> False)
      | Some Null \<Rightarrow> (case right of Some Null \<Rightarrow> True | _ \<Rightarrow> False)
      | Some (Builtin f) \<Rightarrow> (case right of Some (Builtin g) \<Rightarrow> f = g | _ \<Rightarrow> False)
      | Some (Array a es) \<Rightarrow> (case right of Some (Array b fs) \<Rightarrow> a = b | _ \<Rightarrow> False)
      | Some (Hash a ps) \<Rightarrow> (case right of Some (Hash b qs) \<Rightarrow> a = b | _ \<Rightarrow> False)
      | Some (Function a ps bd e) \<Rightarrow>
          (case right of Some (Function b qs bd' e') \<Rightarrow> a = b | _ \<Rightarrow> False)
      | Some (ReturnValue a v) \<Rightarrow>
          (case right of Some (ReturnValue b w) \<Rightarrow> a = b | _ \<Rightarrow> False)
      | _ \<Rightarrow> False)"

text \<open>
  The operands are unpacked by type assertions, which the caller has made safe.
  \<^verbatim>\<open>/\<close> is Go's integer division: it truncates towards zero, wraps for the one
  overflowing quotient and panics on a zero divisor.  \<^verbatim>\<open><\<close> and \<^verbatim>\<open>>\<close>
  compare signed values.
\<close>

definition evalIntegerInfixExpression :: "string \<Rightarrow> obj \<Rightarrow> obj \<Rightarrow> panic + obj option" where
  "evalIntegerInfixExpression operator left right =
     (case left of
        Integer leftVal \<Rightarrow>
          (case right of
             Integer rightVal \<Rightarrow>
               if operator = ''+'' then Inr (Some (Integer (leftVal + rightVal)))
               else if operator = ''-'' then Inr (Some (Integer (leftVal - rightVal)))
               else if operator = ''*'' then Inr (Some (Integer (leftVal * rightVal)))
               else if operator = ''/'' then
                 (if rightVal = 0 then Inl DivideByZero
                  else Inr (Some (Integer (word_of_int (sint leftVal sdiv sint rightVal)))))
               else if operator = ''>'' then
                 Inr (Some (nativeBoolToBooleanObject (rightVal <s leftVal)))
               else if operator = ''<'' then
                 Inr (Some (nativeBoolToBooleanObject (leftVal <s rightVal)))
               else if operator = ''=='' then
                 Inr (Some (nativeBoolToBooleanObject (leftVal = rightVal)))
               else if operator = ''!='' then
                 Inr (Some (nativeBoolToBooleanObject (leftVal \<noteq> rightVal)))
               else Inr (Some (newError (msg_unknown_operation @ Type left @ '' '' @ operator
                                           @ '' '' @ Type right)))
           | _ \<Rightarrow> Inl TypeAssertion)
      | _ \<Rightarrow> Inl TypeAssertion)"

definition evalStringInfixExpression :: "string \<Rightarrow> obj \<Rightarrow> obj \<Rightarrow> panic + obj option" where
  "evalStringInfixExpression operator left right =
     (if operator \<noteq> ''+'' then
        Inr (Some (newError (msg_unknown_operation @ Type left @ '' '' @ operator @ '' ''
                               @ Type right)))
      else (case left of
              String leftVal \<Rightarrow>
                (case right of
                   String rightVal \<Rightarrow> Inr (Some (String (leftVal @ rightVal)))
                 | _ \<Rightarrow> Inl TypeAssertion)
            | _ \<Rightarrow> Inl TypeAssertion))"

text \<open>
  The \<^verbatim>\<open>switch\<close> evaluates its conditions in order and \<^verbatim>\<open>&&\<close> from the left:
  \<^verbatim>\<open>left.Type()\<close> is always called, \<^verbatim>\<open>right.Type()\<close> only where a condition
  reaches it, and each call panics on \<^verbatim>\<open>nil\<close>.  \<open>others\<close> is the rest of the
  switch, from \<^verbatim>\<open>case operator == "=="\<close> on.
\<close>

definition evalInfixExpression :: "string \<Rightarrow> obj option \<Rightarrow> obj option \<Rightarrow> panic + obj option" where
  "evalInfixExpression operator left right =
     (case left of
        None \<Rightarrow> Inl NilDereference
      | Some l \<Rightarrow>
          (let others =
             (if operator = ''=='' then
                Inr (Some (nativeBoolToBooleanObject (same_object left right)))
              else if operator = ''!='' then
                Inr (Some (nativeBoolToBooleanObject (\<not> same_object left right)))
              else (case right of
                      None \<Rightarrow> Inl NilDereference
                    | Some r \<Rightarrow>
                        if Type l \<noteq> Type r then
                          Inr (Some (newError (msg_type_mismatch @ Type l @ '' '' @ operator
                                                 @ '' '' @ Type r)))
                        else
                          Inr (Some (newError (msg_unknown_operation @ Type l @ '' '' @ operator
                                                 @ '' '' @ Type r)))))
           in if Type l = INTEGER_OBJ then
                (case right of
                   None \<Rightarrow> Inl NilDereference
                 | Some r \<Rightarrow>
                     if Type r = INTEGER_OBJ then evalIntegerInfixExpression operator l r
                     else others)
              else if Type l = STRING_OBJ then
                (case right of
                   None \<Rightarrow> Inl NilDereference
                 | Some r \<Rightarrow>
                     if Type r = STRING_OBJ then evalStringInfixExpression operator l r
                     else others)
              else others))"

text \<open>A pointer comparison with the singletons again: \<^verbatim>\<open>nil\<close> is truthy.\<close>

fun isTruthy :: "obj option \<Rightarrow> bool" where
  "isTruthy (Some Null) = False"
| "isTruthy (Some (Boolean True)) = True"
| "isTruthy (Some (Boolean False)) = False"
| "isTruthy _ = True"

fun unwrapReturnValue :: "obj option \<Rightarrow> obj option" where
  "unwrapReturnValue (Some (ReturnValue a v)) = v"
| "unwrapReturnValue ob = ob"

subsection \<open>Index expressions\<close>

text \<open>
  \<^verbatim>\<open>len\<close> of a slice is a non-negative \<^verbatim>\<open>int\<close>, so \<^verbatim>\<open>max\<close> is the exact
  integer \<open>length - 1\<close>; \<^verbatim>\<open>idx\<close> is the signed value of the index.
\<close>

definition evalArrayIndexExpression :: "obj \<Rightarrow> obj \<Rightarrow> panic + obj option" where
  "evalArrayIndexExpression array index =
     (case array of
        Array a elements \<Rightarrow>
          (case index of
             Integer idx \<Rightarrow>
               (let max = int (length elements) - 1
                in if sint idx < 0 \<or> sint idx > max then Inr (Some NULL)
                   else Inr (elements ! nat (sint idx)))
           | _ \<Rightarrow> Inl TypeAssertion)
      | _ \<Rightarrow> Inl TypeAssertion)"

definition evalHashIndexExpression :: "obj \<Rightarrow> obj option \<Rightarrow> panic + obj option" where
  "evalHashIndexExpression hash index =
     (case hash of
        Hash a pairs \<Rightarrow>
          (case index of
             None \<Rightarrow> Inl NilDereference
           | Some ix \<Rightarrow>
               (case HashKey_of ix of
                  None \<Rightarrow> Inr (Some (newError (msg_unusable_hash_key @ Type ix)))
                | Some key \<Rightarrow>
                    (case map_of pairs key of
                       None \<Rightarrow> Inr (Some NULL)
                     | Some pair \<Rightarrow> Inr (snd pair))))
      | _ \<Rightarrow> Inl TypeAssertion)"

definition evalIndexExpression :: "obj option \<Rightarrow> obj option \<Rightarrow> panic + obj option" where
  "evalIndexExpression left index =
     (case left of
        None \<Rightarrow> Inl NilDereference
      | Some l \<Rightarrow>
          if Type l = ARRAY_OBJ then
            (case index of
               None \<Rightarrow> Inl NilDereference
             | Some ix \<Rightarrow>
                 if Type ix = INTEGER_OBJ then evalArrayIndexExpression l ix
                 else Inr (Some (newError (msg_index_unsupported @ Type l))))
          else if Type l = HASH_OBJ then evalHashIndexExpression l index
          else Inr (Some (newError (msg_index_unsupported @ Type l))))"

section \<open>Builtins\<close>

text \<open>
  \<^verbatim>\<open>Inspect()\<close> writes the display form of an object.  The text that \<^verbatim>\<open>puts\<close>
  prints goes to the standard output of the host, which is not part of the state above;
  what is kept of \<^verbatim>\<open>Inspect\<close> is whether it returns: it panics where it calls
  \<^verbatim>\<open>Inspect\<close> on a \<^verbatim>\<open>nil\<close> element, pair value or returned value.
\<close>

fun Inspect_returns :: "obj \<Rightarrow> bool" where
  "Inspect_returns (Array a elements) =
     list_all (\<lambda>e. case e of None \<Rightarrow> False | Some x \<Rightarrow> Inspect_returns x) elements"
| "Inspect_returns (Hash a pairs) =
     list_all (\<lambda>p. case snd (snd p) of None \<Rightarrow> False
                    | Some x \<Rightarrow> Inspect_returns (fst (snd p)) \<and> Inspect_returns x) pairs"
| "Inspect_returns (ReturnValue a v) = (case v of None \<Rightarrow> False | Some x \<Rightarrow> Inspect_returns x)"
| "Inspect_returns ob = True"

definition fresh_addr :: "state \<Rightarrow> state" where
  "fresh_addr st = st\<lparr>next_addr := Suc (next_addr st)\<rparr>"

definition builtin_len :: "obj option list \<Rightarrow> panic + obj option" where
  "builtin_len args =
     (if length args \<noteq> 1 then
        Inr (Some (newError (msg_wrong_arity ''1'' @ fmt_d (length args) @ msg_counter)))
      else (case args ! 0 of
              None \<Rightarrow> Inl NilDereference
            | Some (String v) \<Rightarrow> Inr (Some (Integer (of_nat (length v))))
            | Some (Array a elements) \<Rightarrow> Inr (Some (Integer (of_nat (length elements))))
            | Some ob \<Rightarrow> Inr (Some (newError (''len'' @ msg_unsupported_argument @ Type ob)))))"

definition builtin_first :: "obj option list \<Rightarrow> panic + obj option" where
  "builtin_first args =
     (if length args \<noteq> 1 then
        Inr (Some (newError (msg_wrong_arity ''1'' @ fmt_d (length args) @ msg_counter)))
      else (case args ! 0 of
              None \<Rightarrow> Inl NilDereference
            | Some ob \<Rightarrow>
                if Type ob \<noteq> ARRAY_OBJ then
                  Inr (Some (newError (''first'' @ msg_unsupported_argument @ Type ob)))
                else (case ob of
                        Array a elements \<Rightarrow>
                          if length elements > 0 then Inr (elements ! 0) else Inr (Some NULL)
                      | _ \<Rightarrow> Inl TypeAssertion)))"

definition builtin_last :: "obj option list \<Rightarrow> panic + obj option" where
  "builtin_last args =
     (if length args \<noteq> 1 then
        Inr (Some (newError (msg_wrong_arity ''1'' @ fmt_d (length args) @ msg_counter)))
      else (case args ! 0 of
              None \<Rightarrow> Inl NilDereference
            | Some ob \<Rightarrow>
                if Type ob \<noteq> ARRAY_OBJ then
                  Inr (Some (newError (''first'' @ msg_unsupported_argument @ Type ob)))
                else (case ob of
                        Array a elements \<Rightarrow>
                          if length elements > 0 then Inr (elements ! (length elements - 1))
                          else Inr (Some NULL)
                      | _ \<Rightarrow> Inl TypeAssertion)))"

definition builtin_rest :: "obj option list \<Rightarrow> state \<Rightarrow> obj option outcome" where
  "builtin_rest args st =
     (if length args \<noteq> 1 then
        Ok (Some (newError (msg_wrong_arity ''1'' @ fmt_d (length args) @ msg_counter))) st
      else (case args ! 0 of
              None \<Rightarrow> Panic NilDereference
            | Some ob \<Rightarrow>
                if Type ob \<noteq> ARRAY_OBJ then
                  Ok (Some (newError (''first'' @ msg_unsupported_argument @ Type ob))) st
                else (case ob of
                        Array a elements \<Rightarrow>
                          if length elements > 0 then
                            Ok (Some (Array (next_addr st) (drop 1 elements))) (fresh_addr st)
                          else Ok (Some NULL) st
                      | _ \<Rightarrow> Panic TypeAssertion)))"

definition builtin_push :: "obj option list \<Rightarrow> state \<Rightarrow> obj option outcome" where
  "builtin_push args st =
     (if length args \<noteq> 2 then
        Ok (Some (newError (msg_wrong_arity ''2'' @ fmt_d (length args) @ msg_counter))) st
      else (case args ! 0 of
              None \<Rightarrow> Panic NilDereference
            | Some ob \<Rightarrow>
                if Type ob \<noteq> ARRAY_OBJ then
                  Ok (Some (newError (''first'' @ msg_unsupported_argument @ Type ob))) st
                else (case ob of
                        Array a elements \<Rightarrow>
                          Ok (Some (Array (next_addr st) (elements @ [args ! 1]))) (fresh_addr st)
                      | _ \<Rightarrow> Panic TypeAssertion)))"

definition builtin_puts :: "obj option list \<Rightarrow> panic + obj option" where
  "builtin_puts args =
     (if list_all (\<lambda>arg. case arg of None \<Rightarrow> False | Some x \<Rightarrow> Inspect_returns x) args
      then Inr (Some NULL) else Inl NilDereference)"

text \<open>
  The table \<^verbatim>\<open>builtins\<close>, and the call \<^verbatim>\<open>fn.Fn(args...)\<close> of an entry.  A
  \<open>Builtin\<close> under another name is not in the table: its \<^verbatim>\<open>Fn\<close> is \<^verbatim>\<open>nil\<close>,
  and calling it panics.
\<close>

definition builtins :: "string \<Rightarrow> obj option" where
  "builtins name =
     (if name \<in> set [''len'', ''first'', ''last'', ''rest'', ''push'', ''puts'']
      then Some (Builtin name) else None)"

definition Builtin_Fn :: "string \<Rightarrow> obj option list \<Rightarrow> state \<Rightarrow> obj option outcome" where
  "Builtin_Fn name args st =
     (if name = ''len'' then lift (builtin_len args) st
      else if name = ''first'' then lift (builtin_first args) st
      else if name = ''last'' then lift (builtin_last args) st
      else if name = ''rest'' then builtin_rest args st
      else if name = ''push'' then builtin_push args st
      else if name = ''puts'' then lift (builtin_puts args) st
      else Panic NilDereference)"

section \<open>The evaluator\<close>

definition evalIdentifier :: "string \<Rightarrow> Environment \<Rightarrow> state \<Rightarrow> obj option" where
  "evalIdentifier name env st =
     (case Get st env name of
        Some val \<Rightarrow> val
      | None \<Rightarrow>
          (case builtins name of
             Some builtin \<Rightarrow> Some builtin
           | None \<Rightarrow> Some (newError (msg_identifier_undefined @ name))))"

text \<open>
  The loop of \<^verbatim>\<open>extendFunctionEnv\<close> reads \<^verbatim>\<open>args[paramIdx]\<close> for every
  parameter; Go checks the index and panics when it is out of range.
\<close>

fun extendFunctionEnv_loop ::
  "Environment \<Rightarrow> string list \<Rightarrow> nat \<Rightarrow> obj option list \<Rightarrow> state \<Rightarrow> unit outcome" where
  "extendFunctionEnv_loop env [] paramIdx args st = Ok () st"
| "extendFunctionEnv_loop env (param # params) paramIdx args st =
     (if paramIdx < length args
      then extendFunctionEnv_loop env params (Suc paramIdx) args (Set env param (args ! paramIdx) st)
      else Panic IndexOutOfRange)"

definition extendFunctionEnv ::
  "string list \<Rightarrow> Environment \<Rightarrow> obj option list \<Rightarrow> state \<Rightarrow> Environment outcome" where
  "extendFunctionEnv parameters fn_env args st =
     (case NewEnclosedEnvironment fn_env st of
        (env, st1) \<Rightarrow>
          (case extendFunctionEnv_loop env parameters 0 args st1 of
             Ok u st2 \<Rightarrow> Ok env st2
           | Panic p \<Rightarrow> Panic p
           | OutOfFuel \<Rightarrow> OutOfFuel))"

definition andThen :: "'a outcome \<Rightarrow> ('a \<Rightarrow> state \<Rightarrow> 'b outcome) \<Rightarrow> 'b outcome" where
  "andThen m f = (case m of OutOfFuel \<Rightarrow> OutOfFuel | Panic p \<Rightarrow> Panic p | Ok v st \<Rightarrow> f v st)"

text \<open>
  \<^verbatim>\<open>Eval\<close> and the functions it is mutually recursive with.  The first argument
  bounds the depth of nested \<^verbatim>\<open>Eval\<close> calls: a program of the language may recurse
  for ever, and a run that needs more depth than the bound is \<open>OutOfFuel\<close>.  The
  \<^verbatim>\<open>for\<close> loops are recursions on the rest of the slice, the variable
  \<^verbatim>\<open>result\<close> (or \<^verbatim>\<open>pairs\<close>) of the loop being an argument.
\<close>

function (sequential) Eval :: "nat \<Rightarrow> node \<Rightarrow> Environment \<Rightarrow> state \<Rightarrow> obj option outcome"
  and evalProgram ::
    "nat \<Rightarrow> stmt list \<Rightarrow> Environment \<Rightarrow> obj option \<Rightarrow> state \<Rightarrow> obj option outcome"
  and evalBlockStatement ::
    "nat \<Rightarrow> stmt list \<Rightarrow> Environment \<Rightarrow> obj option \<Rightarrow> state \<Rightarrow> obj option outcome"
  and evalIfExpression ::
    "nat \<Rightarrow> expr \<Rightarrow> stmt list \<Rightarrow> stmt list option \<Rightarrow> Environment \<Rightarrow> state \<Rightarrow> obj option outcome"
  and evalExpressions ::
    "nat \<Rightarrow> expr list \<Rightarrow> Environment \<Rightarrow> obj option list \<Rightarrow> state \<Rightarrow> obj option list outcome"
  and applyFunction :: "nat \<Rightarrow> obj option \<Rightarrow> obj option list \<Rightarrow> state \<Rightarrow> obj option outcome"
  and evalHashLiteral_loop ::
    "nat \<Rightarrow> (expr \<times> expr) list \<Rightarrow> Environment \<Rightarrow> (HashKey \<times> (obj \<times> obj option)) list \<Rightarrow> state
      \<Rightarrow> (obj option + (HashKey \<times> (obj \<times> obj option)) list) outcome"
where
  "Eval 0 node env st = OutOfFuel"
| "Eval (Suc n) (Program stmts) env st = evalProgram n stmts env None st"
| "Eval (Suc n) (Stmt (ExpressionStatement e)) env st = Eval n (Expr e) env st"
| "Eval (Suc n) (Stmt (LetStatement name e)) env st =
     andThen (Eval n (Expr e) env st) (\<lambda>val st1.
       if isError val then Ok val st1
       else Ok None (Set env name val st1))"
| "Eval (Suc n) (Expr (PrefixExpression operator r)) env st =
     andThen (Eval n (Expr r) env st) (\<lambda>right st1.
       if isError right then Ok right st1
       else lift (evalPrefixExpression operator right) st1)"
| "Eval (Suc n) (Expr (InfixExpression l operator r)) env st =
     andThen (Eval n (Expr l) env st) (\<lambda>left st1.
       if isError left then Ok left st1
       else andThen (Eval n (Expr r) env st1) (\<lambda>right st2.
         if isError right then Ok right st2
         else lift (evalInfixExpression operator left right) st2))"
| "Eval (Suc n) (Stmt (BlockStatement stmts)) env st = evalBlockStatement n stmts env None st"
| "Eval (Suc n) (Expr (IfExpression condition consequence alternative)) env st =
     evalIfExpression n condition consequence alternative env st"
| "Eval (Suc n) (Stmt (ReturnStatement e)) env st =
     andThen (Eval n (Expr e) env st) (\<lambda>val st1.
       if isError val then Ok val st1
       else Ok (Some (ReturnValue (next_addr st1) val)) (fresh_addr st1))"
| "Eval (Suc n) (Expr (IntegerLiteral v)) env st = Ok (Some (Integer v)) st"
| "Eval (Suc n) (Expr (StringLiteral v)) env st = Ok (Some (String v)) st"
| "Eval (Suc n) (Expr (Boolean_ast v)) env st = Ok (Some (nativeBoolToBooleanObject v)) st"
| "Eval (Suc n) (Expr (Identifier name)) env st = Ok (evalIdentifier name env st) st"
| "Eval (Suc n) (Expr (ArrayLiteral es)) env st =
     andThen (evalExpressions n es env [] st) (\<lambda>elements st1.
       if length elements = 1 \<and> isError (elements ! 0) then Ok (elements ! 0) st1
       else Ok (Some (Array (next_addr st1) elements)) (fresh_addr st1))"
| "Eval (Suc n) (Expr (IndexExpression l i)) env st =
     andThen (Eval n (Expr l) env st) (\<lambda>left st1.
       if isError left then Ok left st1
       else andThen (Eval n (Expr i) env st1) (\<lambda>index st2.
         if isError index then Ok index st2
         else lift (evalIndexExpression left index) st2))"
| "Eval (Suc n) (Expr (HashLiteral pairs)) env st =
     andThen (evalHashLiteral_loop n (range_order st (ticks st) pairs) env []
                (st\<lparr>ticks := Suc (ticks st)\<rparr>)) (\<lambda>r st1.
       case r of
         Inl early \<Rightarrow> Ok early st1
       | Inr hashed_pairs \<Rightarrow> Ok (Some (Hash (next_addr st1) hashed_pairs)) (fresh_addr st1))"
| "Eval (Suc n) (Expr (FunctionLiteral params body)) env st =
     Ok (Some (Function (next_addr st) params body env)) (fresh_addr st)"
| "Eval (Suc n) (Expr (CallExpression f arguments)) env st =
     andThen (Eval n (Expr f) env st) (\<lambda>function st1.
       if isError function then Ok function st1
       else andThen (evalExpressions n arguments env [] st1) (\<lambda>args st2.
         if length args = 1 \<and> isError (args ! 0) then Ok (args ! 0) st2
         else applyFunction n function args st2))"

| "evalProgram n [] env result st = Ok result st"
| "evalProgram n (stmt # stmts) env result st =
     andThen (Eval n (Stmt stmt) env st) (\<lambda>result st1.
       case result of
         Some (ReturnValue a v) \<Rightarrow> Ok v st1
       | Some (Error m) \<Rightarrow> Ok result st1
       | _ \<Rightarrow> evalProgram n stmts env result st1)"

| "evalBlockStatement n [] env result st = Ok result st"
| "evalBlockStatement n (stmt # stmts) env result st =
     andThen (Eval n (Stmt stmt) env st) (\<lambda>result st1.
       case result of
         None \<Rightarrow> evalBlockStatement n stmts env result st1
       | Some ob \<Rightarrow>
           if Type ob = RETURN_VALUE_OBJ \<or> Type ob = ERROR_OBJ then Ok result st1
           else evalBlockStatement n stmts env result st1)"

| "evalIfExpression n condition consequence alternative env st =
     andThen (Eval n (Expr condition) env st) (\<lambda>cond st1.
       if isError cond then Ok cond st1
       else if isTruthy cond then Eval n (Stmt (BlockStatement consequence)) env st1
       else (case alternative of
               Some alt \<Rightarrow> Eval n (Stmt (BlockStatement alt)) env st1
             | None \<Rightarrow> Ok (Some NULL) st1))"

| "evalExpressions n [] env result st = Ok result st"
| "evalExpressions n (e # exps) env result st =
     andThen (Eval n (Expr e) env st) (\<lambda>evaluated st1.
       if isError evaluated then Ok [evaluated] st1
       else evalExpressions n exps env (result @ [evaluated]) st1)"

| "applyFunction n fn args st =
     (case fn of
        None \<Rightarrow> Panic NilDereference
      | Some (Function a parameters body fn_env) \<Rightarrow>
          andThen (extendFunctionEnv parameters fn_env args st) (\<lambda>extendEnv st1.
            andThen (Eval n (Stmt (BlockStatement body)) extendEnv st1) (\<lambda>evaluated st2.
              Ok (unwrapReturnValue evaluated) st2))
      | Some (Builtin name) \<Rightarrow> Builtin_Fn name args st
      | Some ob \<Rightarrow> Ok (Some (newError (msg_not_a_function @ Type ob))) st)"

| "evalHashLiteral_loop n [] env pairs st = Ok (Inr pairs) st"
| "evalHashLiteral_loop n ((keyNode, valueNode) # rest) env pairs st =
     andThen (Eval n (Expr keyNode) env st) (\<lambda>key st1.
       if isError key then Ok (Inl key) st1
       else (case key of
               None \<Rightarrow> Panic NilDereference
             | Some k \<Rightarrow>
                 (case HashKey_of k of
                    None \<Rightarrow> Ok (Inl (Some (newError (msg_unusable_hash_key @ Type k)))) st1
                  | Some hashed \<Rightarrow>
                      andThen (Eval n (Expr valueNode) env st1) (\<lambda>val st2.
                        if isError val then Ok (Inl val) st2
                        else evalHashLiteral_loop n rest env
                               (AList.update hashed (k, val) pairs) st2))))"

  by pat_completeness auto

termination
  by (relation "measures
        [case_sum
           (case_sum (\<lambda>(n, nd, env, st). n)
              (case_sum (\<lambda>(n, ss, env, r, st). n) (\<lambda>(n, ss, env, r, st). n)))
           (case_sum
              (case_sum (\<lambda>(n, c, cs, alt, env, st). n) (\<lambda>(n, es, env, r, st). n))
              (case_sum (\<lambda>(n, fn, args, st). n) (\<lambda>(n, ps, env, r, st). n))),
         case_sum
           (case_sum (\<lambda>(n, nd, env, st). 0)
              (case_sum (\<lambda>(n, ss, env, r, st). Suc (length ss))
                 (\<lambda>(n, ss, env, r, st). Suc (length ss))))
           (case_sum
              (case_sum (\<lambda>(n, c, cs, alt, env, st). Suc 0)
                 (\<lambda>(n, es, env, r, st). Suc (length es)))
              (case_sum (\<lambda>(n, fn, args, st). Suc 0)
                 (\<lambda>(n, ps, env, r, st). Suc (length ps))))]")
     auto

text \<open>
  What a run returned, without the final state: \<open>None\<close> when the depth bound was
  reached, otherwise the panic or the value.
\<close>

definition returned :: "'a outcome \<Rightarrow> (panic + 'a) option" where
  "returned r = (case r of OutOfFuel \<Rightarrow> None | Panic p \<Rightarrow> Some (Inl p) | Ok v st \<Rightarrow> Some (Inr v))"

text \<open>
  A fresh run: the global environment at address 0 with an empty store.  Two of the
  orders in which the Go runtime may visit a map: the order of insertion and its reverse.
\<close>

definition insertion_order :: "nat \<Rightarrow> (expr \<times> expr) list \<Rightarrow> (expr \<times> expr) list" where
  "insertion_order t entries = entries"

definition reversed_order :: "nat \<Rightarrow> (expr \<times> expr) list \<Rightarrow> (expr \<times> expr) list" where
  "reversed_order t entries = rev entries"

definition global_env :: Environment where
  "global_env = Environment 0 None"

definition initial_state ::
  "(nat \<Rightarrow> (expr \<times> expr) list \<Rightarrow> (expr \<times> expr) list) \<Rightarrow> state" where
  "initial_state order =
     \<lparr>stores = (\<lambda>a. Map.empty), next_addr = 1, ticks = 0, range_order = order\<rparr>"

subsection \<open>Reference notions for the evaluator\<close>

text \<open>
  The spec's reading of a hash literal, to compare \<open>evalHashLiteral_loop\<close> with: the
  pairs of a list are evaluated in the order of the list, each key before its value, and
  the evaluated entries are collected; an error, an unhashable key, a panic or the depth
  bound ends the evaluation as in the source.
\<close>

fun evalPairs_in_order ::
  "nat \<Rightarrow> (expr \<times> expr) list \<Rightarrow> Environment \<Rightarrow> state
     \<Rightarrow> (obj option + (obj \<times> obj option) list) outcome" where
  "evalPairs_in_order n [] env st = Ok (Inr []) st"
| "evalPairs_in_order n ((keyNode, valueNode) # rest) env st =
     andThen (Eval n (Expr keyNode) env st) (\<lambda>key st1.
       if isError key then Ok (Inl key) st1
       else (case key of
               None \<Rightarrow> Panic NilDereference
             | Some k \<Rightarrow>
                 (case HashKey_of k of
                    None \<Rightarrow> Ok (Inl (Some (newError (msg_unusable_hash_key @ Type k)))) st1
                  | Some hashed \<Rightarrow>
                      andThen (Eval n (Expr valueNode) env st1) (\<lambda>val st2.
                        if isError val then Ok (Inl val) st2
                        else andThen (evalPairs_in_order n rest env st2) (\<lambda>r st3.
                          case r of
                            Inl early \<Rightarrow> Ok (Inl early) st3
                          | Inr entries \<Rightarrow> Ok (Inr ((k, val) # entries)) st3)))))"

text \<open>
  The spec's ``later overwriting earlier'': the entries are stored one after the other
  under the hash key of their key, each replacing what is stored under that key.
\<close>

definition later_overwrites ::
  "(obj \<times> obj option) list \<Rightarrow> (HashKey \<times> (obj \<times> obj option)) list
     \<Rightarrow> (HashKey \<times> (obj \<times> obj option)) list" where
  "later_overwrites entries pairs =
     fold (\<lambda>entry. case HashKey_of (fst entry) of
                      None \<Rightarrow> id
                    | Some hashed \<Rightarrow> AList.update hashed entry) entries pairs"

text \<open>
  ``The last executed statement is the next one'': every statement of a list is executed
  by the loop of \<open>evalProgram\<close> and none of them ends it (none returns a
  \<open>ReturnValue\<close> or an \<open>Error\<close>, panics or reaches the depth bound); the result is
  the state in which the statement after them is executed.
\<close>

fun executed_through :: "nat \<Rightarrow> stmt list \<Rightarrow> Environment \<Rightarrow> state \<Rightarrow> state option" where
  "executed_through n [] env st = Some st"
| "executed_through n (stmt # stmts) env st =
     (case Eval n (Stmt stmt) env st of
        Ok result st1 \<Rightarrow>
          (case result of
             Some (ReturnValue a v) \<Rightarrow> None
           | Some (Error m) \<Rightarrow> None
           | _ \<Rightarrow> executed_through n stmts env st1)
      | _ \<Rightarrow> None)"

section \<open>Integer literals (package parser)\<close>

text \<open>
  A token (package token) and the fields of \<^verbatim>\<open>Parser\<close> that
  \<^verbatim>\<open>parseIntegerLiteral\<close> reads and writes.  The lexer \<^verbatim>\<open>l\<close> and the two
  tables of parse functions are left out.
\<close>

record Token =
  Type_tok :: string
  Literal :: string

abbreviation INT_tok :: string where "INT_tok \<equiv> ''INT''"

record Parser =
  curToken :: Token
  peekToken :: Token
  errors :: "string list"

subsection \<open>\<^verbatim>\<open>strconv.ParseInt(s, 0, 64)\<close>\<close>

text \<open>
  \<^verbatim>\<open>strconv\<close> belongs to the Go standard library.  The definitions follow its
  algorithm for the arguments of the call site, base 0 and 64 bits: with base 0 the base
  is taken from the prefix of the string (\<^verbatim>\<open>0b\<close>, \<^verbatim>\<open>0o\<close>, \<^verbatim>\<open>0x\<close>, or a
  leading \<^verbatim>\<open>0\<close> alone for octal, else decimal) and underscores may separate digits.
\<close>

datatype NumError = ErrSyntax | ErrRange

text \<open>Bytes are compared by their codes; \<^verbatim>\<open>lower(c)\<close> is \<^verbatim>\<open>c | ('x' - 'X')\<close>.\<close>

definition lower :: "char \<Rightarrow> nat" where
  "lower c = (of_char c :: nat) OR 32"

definition digit_of :: "char \<Rightarrow> nat option" where
  "digit_of c =
     (if 48 \<le> (of_char c :: nat) \<and> (of_char c :: nat) \<le> 57 then Some (of_char c - 48)
      else if 97 \<le> lower c \<and> lower c \<le> 122 then Some (lower c - 97 + 10)
      else None)"

definition cutoff :: "nat \<Rightarrow> 64 word" where
  "cutoff base = of_nat ((2 ^ 64 - 1) div base + 1)"

text \<open>
  The loop over the bytes, with the accumulator \<^verbatim>\<open>n\<close> a \<^verbatim>\<open>uint64\<close>.  The
  test \<^verbatim>\<open>n1 > maxVal\<close> of the library cannot hold for 64 bits and is left out.
\<close>

fun ParseUint_loop :: "nat \<Rightarrow> string \<Rightarrow> 64 word \<Rightarrow> bool \<Rightarrow> NumError + 64 word \<times> bool" where
  "ParseUint_loop base [] n underscores = Inr (n, underscores)"
| "ParseUint_loop base (c # s) n underscores =
     (if c = CHR ''_'' then ParseUint_loop base s n True
      else (case digit_of c of
              None \<Rightarrow> Inl ErrSyntax
            | Some d \<Rightarrow>
                if d \<ge> base then Inl ErrSyntax
                else if n \<ge> cutoff base then Inl ErrRange
                else (let n' = n * of_nat base; n1 = n' + of_nat d
                      in if n1 < n' then Inl ErrRange
                         else ParseUint_loop base s n1 underscores)))"

datatype saw = Begin | Digit | Underscore | Other

fun underscoreOK_loop :: "bool \<Rightarrow> saw \<Rightarrow> string \<Rightarrow> bool" where
  "underscoreOK_loop hex seen [] = (seen \<noteq> Underscore)"
| "underscoreOK_loop hex seen (c # s) =
     (if (48 \<le> (of_char c :: nat) \<and> (of_char c :: nat) \<le> 57)
         \<or> (hex \<and> 97 \<le> lower c \<and> lower c \<le> 102)
      then underscoreOK_loop hex Digit s
      else if c = CHR ''_'' then (if seen \<noteq> Digit then False else underscoreOK_loop hex Underscore s)
      else if seen = Underscore then False
      else underscoreOK_loop hex Other s)"

definition underscoreOK :: "string \<Rightarrow> bool" where
  "underscoreOK s0 =
     (let s = (if length s0 \<ge> 1 \<and> (hd s0 = CHR ''-'' \<or> hd s0 = CHR ''+'') then tl s0 else s0)
      in if length s \<ge> 2 \<and> hd s = CHR ''0''
            \<and> (lower (s ! 1) = of_char CHR ''b'' \<or> lower (s ! 1) = of_char CHR ''o''
                \<or> lower (s ! 1) = of_char CHR ''x'')
         then underscoreOK_loop (lower (s ! 1) = of_char CHR ''x'') Digit (drop 2 s)
         else underscoreOK_loop False Begin s)"

definition ParseUint :: "string \<Rightarrow> NumError + 64 word" where
  "ParseUint s0 =
     (if s0 = [] then Inl ErrSyntax
      else (let (base, s) =
                  (if hd s0 = CHR ''0'' then
                     (if length s0 \<ge> 3 \<and> lower (s0 ! 1) = of_char CHR ''b'' then (2, drop 2 s0)
                      else if length s0 \<ge> 3 \<and> lower (s0 ! 1) = of_char CHR ''o'' then (8, drop 2 s0)
                      else if length s0 \<ge> 3 \<and> lower (s0 ! 1) = of_char CHR ''x'' then (16, drop 2 s0)
                      else (8, drop 1 s0))
                   else (10, s0))
            in case ParseUint_loop base s 0 False of
                 Inl e \<Rightarrow> Inl e
               | Inr (n, underscores) \<Rightarrow>
                   if underscores \<and> \<not> underscoreOK s0 then Inl ErrSyntax else Inr n))"

text \<open>
  \<^verbatim>\<open>ParseInt\<close>: the sign, then \<^verbatim>\<open>ParseUint\<close>, whose range error leaves
  \<^verbatim>\<open>un\<close> at the largest value; the result must fit the signed 64 bits.
\<close>

definition ParseInt :: "string \<Rightarrow> NumError + 64 word" where
  "ParseInt s0 =
     (if s0 = [] then Inl ErrSyntax
      else (let neg = (hd s0 = CHR ''-'');
                s = (if hd s0 = CHR ''+'' \<or> hd s0 = CHR ''-'' then tl s0 else s0)
            in case ParseUint s of
                 Inl ErrSyntax \<Rightarrow> Inl ErrSyntax
               | r \<Rightarrow>
                   (let un = (case r of Inr u \<Rightarrow> u | Inl e \<Rightarrow> - 1)
                    in if \<not> neg \<and> un \<ge> 2 ^ 63 then Inl ErrRange
                       else if neg \<and> un > 2 ^ 63 then Inl ErrRange
                       else Inr (if neg then - un else un))))"

subsection \<open>\<^verbatim>\<open>parseIntegerLiteral\<close>\<close>

text \<open>
  The verb \<^verbatim>\<open>%q\<close>: the string in double quotes, as Go source text.  A quote and a
  backslash are escaped, and so are the control characters; the printable ASCII
  characters stand for themselves.  For the bytes from \<open>0x80\<close> on the library decodes
  UTF-8 and consults the Unicode tables; they are left as they are here.
\<close>

definition hex_digit :: "nat \<Rightarrow> char" where
  "hex_digit d = (if d < 10 then char_of (48 + d) else char_of (87 + d))"

definition quote_byte :: "char \<Rightarrow> string" where
  "quote_byte c =
     (if c = CHR 0x22 then [CHR 0x5C, CHR 0x22]
      else if c = CHR 0x5C then [CHR 0x5C, CHR 0x5C]
      else if c = CHR 0x07 then [CHR 0x5C, CHR ''a'']
      else if c = CHR 0x08 then [CHR 0x5C, CHR ''b'']
      else if c = CHR 0x0C then [CHR 0x5C, CHR ''f'']
      else if c = CHR 0x0A then [CHR 0x5C, CHR ''n'']
      else if c = CHR 0x0D then [CHR 0x5C, CHR ''r'']
      else if c = CHR 0x09 then [CHR 0x5C, CHR ''t'']
      else if c = CHR 0x0B then [CHR 0x5C, CHR ''v'']
      else if (of_char c :: nat) < 32 \<or> (of_char c :: nat) = 127 then
        [CHR 0x5C, CHR ''x'', hex_digit ((of_char c :: nat) div 16), hex_digit ((of_char c :: nat) mod 16)]
      else [c])"

definition fmt_q :: "string \<Rightarrow> string" where
  "fmt_q s = [CHR 0x22] @ concat (map quote_byte s) @ [CHR 0x22]"

text \<open>
  The message of the source, ``cannot parse \<^verbatim>\<open>%q\<close> as number'' in Chinese, as UTF-8
  bytes around the quoted lexeme.
\<close>

definition msg_cannot_parse :: "string \<Rightarrow> string" where
  "msg_cannot_parse quoted =
     [CHR 0xE6, CHR 0x97, CHR 0xA0, CHR 0xE6, CHR 0xB3, CHR 0x95, CHR 0xE8, CHR 0xA7, CHR 0xA3,
      CHR 0xE6, CHR 0x9E, CHR 0x90, CHR '' ''] @ quoted @
     [CHR '' '', CHR 0xE4, CHR 0xB8, CHR 0xBA, CHR 0xE6, CHR 0x95, CHR 0xB0, CHR 0xE5, CHR 0xAD,
      CHR 0x97]"

text \<open>
  The parse function registered for \<^verbatim>\<open>INT\<close> tokens: the expression, or \<^verbatim>\<open>nil\<close>
  with a message appended to \<^verbatim>\<open>p.errors\<close>.
\<close>

definition parseIntegerLiteral :: "Parser \<Rightarrow> expr option \<times> Parser" where
  "parseIntegerLiteral p =
     (case ParseInt (Literal (curToken p)) of
        Inl err \<Rightarrow>
          (None, p\<lparr>errors := errors p @ [msg_cannot_parse (fmt_q (Literal (curToken p)))]\<rparr>)
      | Inr v \<Rightarrow> (Some (IntegerLiteral v), p))"

text \<open>
  Reading a string of decimal digits in a base, and the set of such strings.
\<close>

definition digits_value :: "nat \<Rightarrow> string \<Rightarrow> nat" where
  "digits_value base s = foldl (\<lambda>n c. n * base + ((of_char c :: nat) - 48)) 0 s"

definition is_digit :: "char \<Rightarrow> bool" where
  "is_digit c = (48 \<le> (of_char c :: nat) \<and> (of_char c :: nat) \<le> 57)"

text \<open>
  A parser that has just read an \<^verbatim>\<open>INT\<close> token with the given lexeme at the end
  of the input, with no error so far.
\<close>

definition parser_at_INT :: "string \<Rightarrow> Parser" where
  "parser_at_INT lexeme =
     \<lparr>curToken = \<lparr>Type_tok = INT_tok, Literal = lexeme\<rparr>,
      peekToken = \<lparr>Type_tok = ''EOF'', Literal = []\<rparr>,
      errors = []\<rparr>"

section \<open>Properties\<close>

subsection \<open>Evaluation lemmas\<close>

lemma andThen_simps [simp]:
  "andThen OutOfFuel f = OutOfFuel"
  "andThen (Panic p) f = Panic p"
  "andThen (Ok v st) f = f v st"
  by (simp_all add: andThen_def)

lemma lift_simps [simp]:
  "lift (Inl p) st = Panic p"
  "lift (Inr v) st = Ok v st"
  by (simp_all add: lift_def)

subsection \<open>Integer arithmetic\<close>

lemma sint_wraps_add: "sint (a + b :: 64 word) = (sint a + sint b + 2 ^ 63) mod 2 ^ 64 - 2 ^ 63"
  by (simp add: sint_word_ariths signed_take_bit_eq_take_bit_shift take_bit_eq_mod)

lemma sint_wraps_diff: "sint (a - b :: 64 word) = (sint a - sint b + 2 ^ 63) mod 2 ^ 64 - 2 ^ 63"
  by (simp add: sint_word_ariths signed_take_bit_eq_take_bit_shift take_bit_eq_mod)

lemma sint_wraps_mult: "sint (a * b :: 64 word) = (sint a * sint b + 2 ^ 63) mod 2 ^ 64 - 2 ^ 63"
  by (simp add: sint_word_ariths signed_take_bit_eq_take_bit_shift take_bit_eq_mod)

lemma sint_wraps_minus: "sint (- a :: 64 word) = (- sint a + 2 ^ 63) mod 2 ^ 64 - 2 ^ 63"
  by (simp add: sint_word_ariths signed_take_bit_eq_take_bit_shift take_bit_eq_mod)

text \<open>
  C9.  The binary operators \<^verbatim>\<open>+\<close>, \<^verbatim>\<open>-\<close>, \<^verbatim>\<open>*\<close> and the prefix
  \<^verbatim>\<open>-\<close> on integers compute on 64-bit two's-complement values: the result is always
  an \<open>Integer\<close>, never an \<open>Error\<close>, and its signed value is the mathematical result
  reduced modulo \<open>2 ^ 64\<close> into the signed range.
\<close>

theorem integer_arithmetic_wraps:
  "evalInfixExpression ''+'' (Some (Integer a)) (Some (Integer b)) = Inr (Some (Integer (a + b)))
   \<and> sint (a + b) = (sint a + sint b + 2 ^ 63) mod 2 ^ 64 - 2 ^ 63
   \<and> evalInfixExpression ''-'' (Some (Integer a)) (Some (Integer b)) = Inr (Some (Integer (a - b)))
   \<and> sint (a - b) = (sint a - sint b + 2 ^ 63) mod 2 ^ 64 - 2 ^ 63
   \<and> evalInfixExpression ''*'' (Some (Integer a)) (Some (Integer b)) = Inr (Some (Integer (a * b)))
   \<and> sint (a * b) = (sint a * sint b + 2 ^ 63) mod 2 ^ 64 - 2 ^ 63
   \<and> evalPrefixExpression ''-'' (Some (Integer a)) = Inr (Some (Integer (- a)))
   \<and> sint (- a) = (- sint a + 2 ^ 63) mod 2 ^ 64 - 2 ^ 63"
  by (simp add: evalInfixExpression_def evalIntegerInfixExpression_def evalPrefixExpression_def
      sint_wraps_add sint_wraps_diff sint_wraps_mult sint_wraps_minus)

theorem integer_arithmetic_wraps_witness:
  "evalInfixExpression ''+'' (Some (Integer 9223372036854775807)) (Some (Integer 1))
     = Inr (Some (Integer (- 9223372036854775808)))
   \<and> evalInfixExpression ''*'' (Some (Integer 4611686018427387904)) (Some (Integer 4))
     = Inr (Some (Integer 0))
   \<and> evalPrefixExpression ''-'' (Some (Integer (- 9223372036854775808)))
     = Inr (Some (Integer (- 9223372036854775808)))"
  using integer_arithmetic_wraps [of 9223372036854775807 1]
    integer_arithmetic_wraps [of 4611686018427387904 4]
    integer_arithmetic_wraps [of "- 9223372036854775808" 0]
  by simp

subsection \<open>Array indexing\<close>

text \<open>
  C8.  An index expression whose left operand evaluates to an array and whose index
  evaluates to an integer \<open>i\<close> returns the element at position \<open>i\<close> when
  \<open>0 \<le> i \<le> length - 1\<close> and \<open>NULL\<close> otherwise: an index out of bounds, negative
  ones included, gives neither an error nor a panic.
\<close>

theorem array_index_in_bounds_or_null:
  assumes "Eval n (Expr l) env st = Ok (Some (Array a elements)) st1"
    and "Eval n (Expr ix) env st1 = Ok (Some (Integer i)) st2"
  shows "Eval (Suc n) (Expr (IndexExpression l ix)) env st =
           Ok (if 0 \<le> sint i \<and> sint i \<le> int (length elements) - 1
               then elements ! nat (sint i) else Some NULL) st2"
  using assms
  by (simp add: evalIndexExpression_def evalArrayIndexExpression_def Let_def)

theorem array_index_in_bounds_or_null_witness:
  "Eval 2 (Expr (ArrayLiteral [IntegerLiteral 7])) global_env (initial_state insertion_order)
     = Ok (Some (Array 1 [Some (Integer 7)])) (fresh_addr (initial_state insertion_order))
   \<and> Eval 2 (Expr (PrefixExpression ''-'' (IntegerLiteral 1))) global_env
        (fresh_addr (initial_state insertion_order))
     = Ok (Some (Integer (- 1))) (fresh_addr (initial_state insertion_order))
   \<and> Eval 3 (Expr (IndexExpression (ArrayLiteral [IntegerLiteral 7])
               (PrefixExpression ''-'' (IntegerLiteral 1)))) global_env
        (initial_state insertion_order)
     = Ok (Some NULL) (fresh_addr (initial_state insertion_order))"
proof -
  have l: "Eval 2 (Expr (ArrayLiteral [IntegerLiteral 7])) global_env (initial_state insertion_order)
     = Ok (Some (Array 1 [Some (Integer 7)])) (fresh_addr (initial_state insertion_order))"
    by (simp add: eval_nat_numeral initial_state_def)
  have i: "Eval 2 (Expr (PrefixExpression ''-'' (IntegerLiteral 1))) global_env
        (fresh_addr (initial_state insertion_order))
     = Ok (Some (Integer (- 1))) (fresh_addr (initial_state insertion_order))"
    by (simp add: eval_nat_numeral evalPrefixExpression_def)
  show ?thesis
    using l i array_index_in_bounds_or_null [OF l i] by (simp add: eval_nat_numeral)
qed

subsection \<open>String operands\<close>

text \<open>
  C7 as stated fails: the message of the error is the Chinese text of the source, not
  ``unknown operator: STRING == STRING''.
\<close>

theorem string_infix_counterexample:
  "evalInfixExpression ''=='' (Some (String ''a'')) (Some (String ''a''))
     \<noteq> Inr (Some (Error ''unknown operator: STRING == STRING''))"
  by (simp add: evalInfixExpression_def evalStringInfixExpression_def newError_def
      msg_unknown_operation_def)

text \<open>
  C7, amended.  For two string operands \<^verbatim>\<open>+\<close> is the concatenation, and every
  other operator, \<^verbatim>\<open>==\<close> and \<^verbatim>\<open>!=\<close> included, is the error whose message is
  the source's text for ``unknown operation: '' followed by \<^verbatim>\<open>STRING <op> STRING\<close>.
\<close>

theorem string_infix:
  "evalInfixExpression operator (Some (String leftVal)) (Some (String rightVal)) =
     Inr (Some (if operator = ''+'' then String (leftVal @ rightVal)
                else Error (msg_unknown_operation @ ''STRING '' @ operator @ '' STRING'')))"
  by (simp add: evalInfixExpression_def evalStringInfixExpression_def newError_def)

theorem string_infix_witness:
  "evalInfixExpression ''+'' (Some (String ''ab'')) (Some (String ''c'')) = Inr (Some (String ''abc''))
   \<and> evalInfixExpression ''!='' (Some (String ''ab'')) (Some (String ''c''))
       = Inr (Some (Error (msg_unknown_operation @ ''STRING != STRING'')))"
  using string_infix [of "''+''" "''ab''" "''c''"] string_infix [of "''!=''" "''ab''" "''c''"]
  by simp

subsection \<open>Hash keys\<close>

text \<open>
  C5 as stated fails for strings: FNV-1a maps the two distinct strings below to the same
  64 bits, so their hash keys are equal.
\<close>

theorem hash_key_counterexample:
  "HashKey_of (String ''fAX176E29P'') = HashKey_of (String ''NP1TCPYebk'')
   \<and> String ''fAX176E29P'' \<noteq> String ''NP1TCPYebk''"
  by (simp add: fnv64a_Sum64_def offset64_def prime64_def byte_of_def)

text \<open>
  C5, amended.  The hash keys of two integers, and of two booleans, are equal exactly when
  the values are equal; the hash keys of two strings are equal exactly when the FNV-1a
  hashes of their bytes are equal, which equal strings have and distinct strings may have;
  keys of values of different types differ.
\<close>

theorem hash_key_injective_up_to_fnv:
  "(HashKey_of (Integer a) = HashKey_of (Integer b) \<longleftrightarrow> a = b)
   \<and> (HashKey_of (Boolean p) = HashKey_of (Boolean q) \<longleftrightarrow> p = q)
   \<and> (HashKey_of (String s) = HashKey_of (String t) \<longleftrightarrow> fnv64a_Sum64 s = fnv64a_Sum64 t)
   \<and> HashKey_of (Integer a) \<noteq> HashKey_of (Boolean p)
   \<and> HashKey_of (Integer a) \<noteq> HashKey_of (String s)
   \<and> HashKey_of (Boolean p) \<noteq> HashKey_of (String s)"
  by simp

theorem hash_key_injective_up_to_fnv_witness:
  "HashKey_of (Integer 1) \<noteq> HashKey_of (Integer 2)
   \<and> HashKey_of (Boolean True) \<noteq> HashKey_of (Boolean False)
   \<and> HashKey_of (String ''a'') \<noteq> HashKey_of (String ''b'')
   \<and> HashKey_of (Integer 1) \<noteq> HashKey_of (Boolean True)"
  using hash_key_injective_up_to_fnv [of 1 2 True False "''a''" "''b''"]
  by (simp add: fnv64a_Sum64_def offset64_def prime64_def byte_of_def)

subsection \<open>Builtins\<close>

text \<open>
  C6.  The builtins \<^verbatim>\<open>last\<close>, \<^verbatim>\<open>rest\<close> and \<^verbatim>\<open>push\<close> report an argument of
  the wrong type under the name of \<^verbatim>\<open>first\<close>: the program \<^verbatim>\<open>last(1)\<close>
  evaluates to the error ``first: unsupported argument type, INTEGER''.
\<close>

theorem builtin_last_names_first:
  "returned (Eval 4 (Program [ExpressionStatement
      (CallExpression (Identifier ''last'') [IntegerLiteral 1])]) global_env
      (initial_state insertion_order))
   = Some (Inr (Some (Error (''first'' @ msg_unsupported_argument @ ''INTEGER''))))"
  by (simp add: eval_nat_numeral returned_def initial_state_def global_env_def evalIdentifier_def
      builtins_def Builtin_Fn_def builtin_last_def newError_def)

lemma builtin_type_errors:
  "Type ob \<noteq> ARRAY_OBJ \<Longrightarrow>
   builtin_first [Some ob] = Inr (Some (Error (''first'' @ msg_unsupported_argument @ Type ob)))
   \<and> builtin_last [Some ob] = Inr (Some (Error (''first'' @ msg_unsupported_argument @ Type ob)))
   \<and> builtin_rest [Some ob] st = Ok (Some (Error (''first'' @ msg_unsupported_argument @ Type ob))) st
   \<and> builtin_push [Some ob, x] st
       = Ok (Some (Error (''first'' @ msg_unsupported_argument @ Type ob))) st"
  by (simp add: builtin_first_def builtin_last_def builtin_rest_def builtin_push_def newError_def)

subsection \<open>Function application\<close>

lemma extendFunctionEnv_loop_short:
  "paramIdx \<le> length args \<Longrightarrow> length args < paramIdx + length parameters \<Longrightarrow>
   extendFunctionEnv_loop env parameters paramIdx args st = Panic IndexOutOfRange"
  by (induction parameters arbitrary: paramIdx st) auto

lemma extendFunctionEnv_loop_binds:
  "paramIdx + length parameters \<le> length args \<Longrightarrow>
   extendFunctionEnv_loop env parameters paramIdx args st =
     Ok () (fold (\<lambda>(param, arg). Set env param arg) (zip parameters (drop paramIdx args)) st)"
proof (induction parameters arbitrary: paramIdx st)
  case Nil
  then show ?case by simp
next
  case (Cons param parameters)
  then have "paramIdx < length args" by simp
  then have "drop paramIdx args = args ! paramIdx # drop (Suc paramIdx) args"
    by (simp add: Cons_nth_drop_Suc)
  with Cons show ?case by simp
qed

text \<open>
  With at least as many arguments as parameters, the body runs in a new environment whose
  outer environment is the one the function captured and in which the parameters are
  bound, in order, to the first arguments; further arguments are ignored.
\<close>

lemma applyFunction_enough_arguments:
  "length parameters \<le> length args \<Longrightarrow>
   applyFunction n (Some (Function a parameters body fn_env)) args st =
     andThen (Eval n (Stmt (BlockStatement body)) (Environment (next_addr st) (Some fn_env))
                (fold (\<lambda>(param, arg). Set (Environment (next_addr st) (Some fn_env)) param arg)
                   (zip parameters args)
                   (st\<lparr>stores := (stores st)(next_addr st := Map.empty),
                       next_addr := Suc (next_addr st)\<rparr>)))
       (\<lambda>evaluated st2. Ok (unwrapReturnValue evaluated) st2)"
  by (simp add: extendFunctionEnv_def NewEnclosedEnvironment_def extendFunctionEnv_loop_binds)

text \<open>With fewer arguments than parameters the call panics, whatever the body.\<close>

lemma applyFunction_too_few_arguments:
  "length args < length parameters \<Longrightarrow>
   applyFunction n (Some (Function a parameters body fn_env)) args st = Panic IndexOutOfRange"
  by (simp add: extendFunctionEnv_def NewEnclosedEnvironment_def extendFunctionEnv_loop_short)

text \<open>
  C2.  The program \<^verbatim>\<open>fn(x) { x }()\<close> calls a function of one parameter without
  arguments: the loop of \<^verbatim>\<open>extendFunctionEnv\<close> reads \<^verbatim>\<open>args[0]\<close> and the run
  ends in Go's index-out-of-range panic.
\<close>

theorem missing_argument_panics:
  "returned (Eval 5 (Program [ExpressionStatement
      (CallExpression (FunctionLiteral [''x''] [ExpressionStatement (Identifier ''x'')]) [])])
      global_env (initial_state insertion_order))
   = Some (Inl IndexOutOfRange)"
  by (simp add: eval_nat_numeral returned_def initial_state_def global_env_def fresh_addr_def
      extendFunctionEnv_def NewEnclosedEnvironment_def)

subsection \<open>Blocks, programs and return values\<close>

text \<open>
  A \<open>ReturnValue\<close> or an \<open>Error\<close> ends a block and is returned as it is; it ends a
  program too, which returns the value inside the \<open>ReturnValue\<close>.
\<close>

lemma evalBlockStatement_short_circuit:
  "Eval n (Stmt stmt) env st = Ok (Some ob) st1 \<Longrightarrow>
   Type ob = RETURN_VALUE_OBJ \<or> Type ob = ERROR_OBJ \<Longrightarrow>
   evalBlockStatement n (stmt # stmts) env result st = Ok (Some ob) st1"
  by auto

lemma evalProgram_unwraps:
  "Eval n (Stmt stmt) env st = Ok (Some (ReturnValue a v)) st1 \<Longrightarrow>
   evalProgram n (stmt # stmts) env result st = Ok v st1"
  by simp

text \<open>
  C3.  The program \<^verbatim>\<open>return if (true) { return 1; };\<close> returns a
  \<open>ReturnValue\<close>: the inner \<^verbatim>\<open>return\<close> leaves the block wrapped, the outer
  \<^verbatim>\<open>return\<close> wraps it again, and \<open>evalProgram\<close> removes one wrapper only.
\<close>

theorem nested_return_escapes:
  "returned (Eval 7 (Program [ReturnStatement
      (IfExpression (Boolean_ast True) [ReturnStatement (IntegerLiteral 1)] None)])
      global_env (initial_state insertion_order))
   = Some (Inr (Some (ReturnValue 1 (Some (Integer 1)))))"
  by (simp add: eval_nat_numeral returned_def initial_state_def global_env_def fresh_addr_def
      nativeBoolToBooleanObject_def)

subsection \<open>Programs that return no value\<close>

lemma evalProgram_append_let:
  assumes "executed_through n pre env st = Some st1"
    and "Eval n (Stmt (LetStatement name e)) env st1 = Ok None st2"
  shows "evalProgram n (pre @ [LetStatement name e]) env result st = Ok None st2"
  using assms
proof (induction pre arbitrary: st result)
  case Nil
  then show ?case by simp
next
  case (Cons stmt pre)
  then show ?case
    by (auto split: outcome.splits option.splits obj.splits)
qed

text \<open>
  C10 as stated fails: in the program \<^verbatim>\<open>let a = b;\<close> the last executed statement
  is a let statement, and the program returns the error for the unbound \<^verbatim>\<open>b\<close>, not
  \<^verbatim>\<open>nil\<close>.
\<close>

theorem program_counterexample:
  "returned (Eval 4 (Program [LetStatement ''a'' (Identifier ''b'')]) global_env
      (initial_state insertion_order))
   = Some (Inr (Some (Error (msg_identifier_undefined @ ''b''))))"
  by (simp add: eval_nat_numeral returned_def initial_state_def global_env_def evalIdentifier_def
      builtins_def newError_def)

text \<open>
  C10, amended.  A program with no statements returns \<^verbatim>\<open>nil\<close>, and so does a
  program whose statements are all executed and whose last statement is a let statement
  with a value that is not an \<open>Error\<close>, which it binds; \<^verbatim>\<open>nil\<close> is none of the
  objects, \<open>NULL\<close> included.
\<close>

theorem program_nil_result:
  "Eval (Suc n) (Program []) env st = Ok None st
   \<and> (executed_through (Suc n) pre env st = Some st1
        \<and> Eval n (Expr e) env st1 = Ok val st2 \<and> \<not> isError val
      \<longrightarrow> Eval (Suc (Suc n)) (Program (pre @ [LetStatement name e])) env st
            = Ok None (Set env name val st2))
   \<and> (None :: obj option) \<noteq> Some NULL"
  by (auto intro!: evalProgram_append_let)

theorem program_nil_result_witness:
  "Eval 1 (Program []) global_env (initial_state insertion_order)
     = Ok None (initial_state insertion_order)
   \<and> Eval 4 (Program ([ExpressionStatement (IntegerLiteral 1)] @ [LetStatement ''a'' (IntegerLiteral 5)]))
        global_env (initial_state insertion_order)
     = Ok None (Set global_env ''a'' (Some (Integer 5)) (initial_state insertion_order))"
proof -
  have pre: "executed_through (Suc 2) [ExpressionStatement (IntegerLiteral 1)] global_env
      (initial_state insertion_order) = Some (initial_state insertion_order)"
    by (simp add: eval_nat_numeral)
  have e: "Eval 2 (Expr (IntegerLiteral 5)) global_env (initial_state insertion_order)
      = Ok (Some (Integer 5)) (initial_state insertion_order)"
    by (simp add: eval_nat_numeral)
  have ne: "\<not> isError (Some (Integer 5))" by simp
  show ?thesis
    using program_nil_result [of 0 global_env "initial_state insertion_order"]
      program_nil_result [of 2 global_env "initial_state insertion_order"
        "[ExpressionStatement (IntegerLiteral 1)]" "initial_state insertion_order"
        "IntegerLiteral 5" "Some (Integer 5)" "initial_state insertion_order" "''a''"]
      pre e ne
    by (simp add: eval_nat_numeral)
qed

subsection \<open>Hash literals\<close>

lemma later_overwrites_simps [simp]:
  "later_overwrites [] pairs = pairs"
  "HashKey_of k = Some hashed \<Longrightarrow>
   later_overwrites ((k, v) # entries) pairs = later_overwrites entries (AList.update hashed (k, v) pairs)"
  by (simp_all add: later_overwrites_def)

lemma evalHashLiteral_loop_in_order:
  "evalHashLiteral_loop n visited env pairs st =
     andThen (evalPairs_in_order n visited env st) (\<lambda>r st1.
       case r of
         Inl early \<Rightarrow> Ok (Inl early) st1
       | Inr entries \<Rightarrow> Ok (Inr (later_overwrites entries pairs)) st1)"
proof (induction visited arbitrary: pairs st)
  case Nil
  then show ?case by simp
next
  case (Cons pair visited)
  obtain keyNode valueNode where pair: "pair = (keyNode, valueNode)"
    by (cases pair)
  show ?case
    unfolding pair
    by (auto simp: Cons.IH andThen_def split: outcome.splits option.splits sum.splits)
qed

lemma map_of_later_overwrites:
  "map_of (later_overwrites entries pairs) hashed =
     (case filter (\<lambda>entry. HashKey_of (fst entry) = Some hashed) entries of
        [] \<Rightarrow> map_of pairs hashed
      | found \<Rightarrow> Some (last found))"
proof (induction entries arbitrary: pairs)
  case Nil
  then show ?case by simp
next
  case (Cons entry entries)
  show ?case
  proof (cases "HashKey_of (fst entry)")
    case None
    then show ?thesis
      by (simp add: later_overwrites_def Cons.IH [unfolded later_overwrites_def])
  next
    case (Some h)
    then show ?thesis
      by (auto simp: later_overwrites_def Cons.IH [unfolded later_overwrites_def] update_conv'
          split: list.splits)
  qed
qed

text \<open>
  C1, amended.  A hash literal is evaluated pair by pair in the order in which the Go
  runtime visits the map of its pairs, each key before its value; the entry of a pair
  replaces the entry of a pair visited earlier with the same hash key, so a hash key maps
  to the last entry visited under it.  The result is a function of the literal, the
  environment, the state and that order.
\<close>

theorem hash_literal_visiting_order:
  "Eval (Suc n) (Expr (HashLiteral pairs)) env st =
     andThen (evalPairs_in_order n (range_order st (ticks st) pairs) env (st\<lparr>ticks := Suc (ticks st)\<rparr>))
       (\<lambda>r st1. case r of
           Inl early \<Rightarrow> Ok early st1
         | Inr entries \<Rightarrow> Ok (Some (Hash (next_addr st1) (later_overwrites entries []))) (fresh_addr st1))
   \<and> map_of (later_overwrites entries []) hashed =
       (case filter (\<lambda>entry. HashKey_of (fst entry) = Some hashed) entries of
          [] \<Rightarrow> None
        | found \<Rightarrow> Some (last found))"
proof
  show "Eval (Suc n) (Expr (HashLiteral pairs)) env st =
     andThen (evalPairs_in_order n (range_order st (ticks st) pairs) env (st\<lparr>ticks := Suc (ticks st)\<rparr>))
       (\<lambda>r st1. case r of
           Inl early \<Rightarrow> Ok early st1
         | Inr entries \<Rightarrow> Ok (Some (Hash (next_addr st1) (later_overwrites entries []))) (fresh_addr st1))"
    by (simp add: evalHashLiteral_loop_in_order andThen_def split: outcome.splits sum.splits)
  show "map_of (later_overwrites entries []) hashed =
       (case filter (\<lambda>entry. HashKey_of (fst entry) = Some hashed) entries of
          [] \<Rightarrow> None
        | found \<Rightarrow> Some (last found))"
    by (simp add: map_of_later_overwrites split: list.splits)
qed

text \<open>
  C1 as stated fails: when the runtime visits the two pairs of \<^verbatim>\<open>{1: "a", 1: "b"}\<close>
  in reverse, the pair that comes first in the source overwrites the second, and the
  result differs from the one for the order of the source.
\<close>

theorem hash_literal_counterexample:
  "returned (Eval 3 (Expr (HashLiteral
       [(IntegerLiteral 1, StringLiteral ''a''), (IntegerLiteral 1, StringLiteral ''b'')]))
       global_env (initial_state reversed_order))
     = Some (Inr (Some (Hash 1
         [(\<lparr>KeyType = INTEGER_OBJ, KeyValue = 1\<rparr>, (Integer 1, Some (String ''a'')))])))
   \<and> returned (Eval 3 (Expr (HashLiteral
       [(IntegerLiteral 1, StringLiteral ''a''), (IntegerLiteral 1, StringLiteral ''b'')]))
       global_env (initial_state insertion_order))
     = Some (Inr (Some (Hash 1
         [(\<lparr>KeyType = INTEGER_OBJ, KeyValue = 1\<rparr>, (Integer 1, Some (String ''b'')))])))"
  by (simp add: eval_nat_numeral returned_def initial_state_def global_env_def fresh_addr_def
      reversed_order_def insertion_order_def)

theorem hash_literal_visiting_order_witness:
  "returned (Eval 3 (Expr (HashLiteral
       [(IntegerLiteral 1, StringLiteral ''a''), (IntegerLiteral 2, StringLiteral ''b''),
        (IntegerLiteral 1, StringLiteral ''c'')]))
       global_env (initial_state insertion_order))
     = Some (Inr (Some (Hash 1 (later_overwrites
         [(Integer 1, Some (String ''a'')), (Integer 2, Some (String ''b'')),
          (Integer 1, Some (String ''c''))] []))))
   \<and> map_of (later_overwrites
         [(Integer 1, Some (String ''a'')), (Integer 2, Some (String ''b'')),
          (Integer 1, Some (String ''c''))] []) \<lparr>KeyType = INTEGER_OBJ, KeyValue = 1\<rparr>
     = Some (Integer 1, Some (String ''c''))"
  using hash_literal_visiting_order [of 2
      "[(IntegerLiteral 1, StringLiteral ''a''), (IntegerLiteral 2, StringLiteral ''b''),
        (IntegerLiteral 1, StringLiteral ''c'')]" global_env "initial_state insertion_order"
      "[(Integer 1, Some (String ''a'')), (Integer 2, Some (String ''b'')),
          (Integer 1, Some (String ''c''))]" "\<lparr>KeyType = INTEGER_OBJ, KeyValue = 1\<rparr>"]
  by (simp add: eval_nat_numeral returned_def initial_state_def global_env_def fresh_addr_def
      insertion_order_def)

subsection \<open>Integer literals\<close>

lemma digit_code_cases:
  "is_digit c \<Longrightarrow> (of_char c :: nat) \<in> {48, 49, 50, 51, 52, 53, 54, 55, 56, 57}"
  unfolding is_digit_def by (simp; arith)

lemma lower_digit: "is_digit c \<Longrightarrow> lower c = of_char c"
  using digit_code_cases [of c] by (auto simp: lower_def)

lemma digit_of_digit: "is_digit c \<Longrightarrow> digit_of c = Some (of_char c - 48)"
  by (simp add: digit_of_def is_digit_def)

lemma digit_not_underscore: "is_digit c \<Longrightarrow> c \<noteq> CHR ''_''"
  by (auto simp: is_digit_def)

lemma foldl_digits_mono:
  "1 \<le> base \<Longrightarrow> a \<le> foldl (\<lambda>n c. n * base + ((of_char c :: nat) - 48)) a s"
proof (induction s arbitrary: a)
  case Nil
  then show ?case by simp
next
  case (Cons c s)
  have "a \<le> a * base + ((of_char c :: nat) - 48)"
    using Cons.prems by (simp add: trans_le_add1)
  also have "\<dots> \<le> foldl (\<lambda>n c. n * base + ((of_char c :: nat) - 48)) (a * base + (of_char c - 48)) s"
    using Cons.IH [OF Cons.prems] .
  finally show ?case by simp
qed

lemma unat_cutoff:
  assumes "2 \<le> base"
  shows "unat (cutoff base) = (2 ^ 64 - 1) div base + 1"
proof -
  have "(2 ^ 64 - 1 :: nat) div base \<le> (2 ^ 64 - 1) div 2"
    using assms by (intro div_le_mono2) simp_all
  then have lt: "(2 ^ 64 - 1 :: nat) div base + 1 < 2 ^ LENGTH(64)" by simp
  show ?thesis
    by (simp only: cutoff_def unat_of_nat mod_less [OF lt])
qed

lemma below_cutoff:
  assumes "2 \<le> base" "unat n < (2 ^ 64 - 1) div base + 1"
  shows "unat n * base < 2 ^ 64"
proof -
  have "unat n \<le> (2 ^ 64 - 1) div base" using assms by simp
  then have "unat n * base \<le> (2 ^ 64 - 1) div base * base" by (rule mult_le_mono1)
  also have "\<dots> \<le> 2 ^ 64 - 1" by (rule div_times_less_eq_dividend)
  finally show ?thesis by simp
qed

lemma above_cutoff:
  assumes "2 \<le> base" "(2 ^ 64 - 1) div base + 1 \<le> (m :: nat)"
  shows "2 ^ 64 \<le> m * base"
proof -
  have "0 < base" using assms(1) by simp
  then have "(2 ^ 64 - 1 :: nat) < ((2 ^ 64 - 1) div base + 1) * base"
    by (metis Suc_eq_plus1 dividend_less_div_times mult.commute mult_Suc)
  also have "\<dots> \<le> m * base" using assms(2) by (rule mult_le_mono1)
  finally show ?thesis by simp
qed

lemma ParseUint_loop_digits:
  assumes "2 \<le> base" "base \<le> 10"
    and "list_all (\<lambda>c. is_digit c \<and> (of_char c :: nat) - 48 < base) s"
  shows "ParseUint_loop base s n u =
           (if foldl (\<lambda>n c. n * base + ((of_char c :: nat) - 48)) (unat n) s < 2 ^ 64
            then Inr (of_nat (foldl (\<lambda>n c. n * base + ((of_char c :: nat) - 48)) (unat n) s), u)
            else Inl ErrRange)"
  using assms(3)
proof (induction s arbitrary: n)
  case Nil
  have "unat n < 2 ^ LENGTH(64)" by (rule unsigned_less)
  then show ?case by simp
next
  case (Cons c s)
  let ?f = "\<lambda>n c. n * base + ((of_char c :: nat) - 48)"
  let ?d = "(of_char c :: nat) - 48"
  from Cons.prems have c: "is_digit c" and d: "?d < base"
    and rest: "list_all (\<lambda>c. is_digit c \<and> (of_char c :: nat) - 48 < base) s"
    by simp_all
  have base1: "1 \<le> base" using assms(1) by simp
  have ub: "unat (of_nat base :: 64 word) = base"
    using assms(2) by (simp add: unat_of_nat)
  have ud: "unat (of_nat ?d :: 64 word) = ?d"
    using d assms(2) by (simp add: unat_of_nat)
  show ?case
  proof (cases "cutoff base \<le> n")
    case True
    then have "(2 ^ 64 - 1) div base + 1 \<le> unat n"
      by (simp add: word_le_nat_alt unat_cutoff [OF assms(1)])
    then have "2 ^ 64 \<le> unat n * base" by (rule above_cutoff [OF assms(1)])
    also have "\<dots> \<le> ?f (unat n) c" by simp
    also have "\<dots> \<le> foldl ?f (?f (unat n) c) s" by (rule foldl_digits_mono [OF base1])
    finally have "\<not> foldl ?f (unat n) (c # s) < 2 ^ 64" by simp
    with True c d show ?thesis
      by (simp add: digit_of_digit digit_not_underscore)
  next
    case False
    then have "unat n < (2 ^ 64 - 1) div base + 1"
      by (simp add: word_le_nat_alt unat_cutoff [OF assms(1)])
    then have small: "unat n * base < 2 ^ 64" by (rule below_cutoff [OF assms(1)])
    then have un': "unat (n * of_nat base) = unat n * base"
      using unat_mult_lem [of n "of_nat base :: 64 word"] by (simp add: ub)
    show ?thesis
    proof (cases "n * of_nat base + of_nat ?d < n * of_nat base")
      case True
      then have "\<not> n * of_nat base \<le> n * of_nat base + (of_nat ?d :: 64 word)" by simp
      then have "2 ^ 64 \<le> unat n * base + ?d"
        by (simp add: no_olen_add_nat un' ud)
      also have "\<dots> \<le> foldl ?f (?f (unat n) c) s" by (rule foldl_digits_mono [OF base1])
      finally have "\<not> foldl ?f (unat n) (c # s) < 2 ^ 64" by simp
      with True False c d show ?thesis
        by (simp add: digit_of_digit digit_not_underscore Let_def)
    next
      case noflow: False
      then have "n * of_nat base \<le> n * of_nat base + (of_nat ?d :: 64 word)" by simp
      then have "unat n * base + ?d < 2 ^ 64"
        by (simp add: no_olen_add_nat un' ud)
      then have "unat (n * of_nat base + of_nat ?d) = unat n * base + ?d"
        using unat_add_lem [of "n * of_nat base" "of_nat ?d :: 64 word"] by (simp add: un' ud)
      with noflow False c d Cons.IH [OF rest, of "n * of_nat base + of_nat ?d"] show ?thesis
        by (simp add: digit_of_digit digit_not_underscore Let_def)
    qed
  qed
qed

lemma ParseUint_loop_bad_digit:
  assumes "list_all is_digit s"
    and "\<not> list_all (\<lambda>c. (of_char c :: nat) - 48 < base) s"
  shows "isl (ParseUint_loop base s n u)"
  using assms
proof (induction s arbitrary: n)
  case Nil
  then show ?case by simp
next
  case (Cons c s)
  then show ?case
    by (auto simp: digit_of_digit digit_not_underscore Let_def)
qed


lemma ParseUint_decimal:
  assumes "s \<noteq> []" "list_all is_digit s" "hd s \<noteq> CHR ''0''"
  shows "ParseUint s =
           (if digits_value 10 s < 2 ^ 64 then Inr (of_nat (digits_value 10 s)) else Inl ErrRange)"
proof -
  have "list_all (\<lambda>c. is_digit c \<and> (of_char c :: nat) - 48 < 10) s"
    using assms(2) by (auto simp: list_all_iff is_digit_def)
  then have "ParseUint_loop 10 s 0 False =
      (if digits_value 10 s < 2 ^ 64 then Inr (of_nat (digits_value 10 s), False) else Inl ErrRange)"
    using ParseUint_loop_digits [of 10 s 0 False] by (simp add: digits_value_def)
  with assms(1,3) show ?thesis
    by (simp add: ParseUint_def)
qed

lemma leading_zero_base:
  assumes "list_all is_digit t"
  shows "ParseUint (CHR ''0'' # t) =
           (case ParseUint_loop 8 t 0 False of
              Inl e \<Rightarrow> Inl e
            | Inr (n, underscores) \<Rightarrow>
                if underscores \<and> \<not> underscoreOK (CHR ''0'' # t) then Inl ErrSyntax else Inr n)"
proof (cases t)
  case Nil
  then show ?thesis by (simp add: ParseUint_def)
next
  case (Cons c t')
  with assms have "is_digit c" by simp
  then have "lower c = of_char c" and "(of_char c :: nat) \<le> 57"
    by (simp_all add: lower_digit is_digit_def)
  then have "lower c \<noteq> 98" "lower c \<noteq> 111" "lower c \<noteq> 120" by simp_all
  then show ?thesis unfolding Cons by (simp add: ParseUint_def)
qed

lemma ParseUint_octal:
  assumes "list_all is_digit t" "list_all (\<lambda>c. (of_char c :: nat) < 56) t"
  shows "ParseUint (CHR ''0'' # t) =
           (if digits_value 8 t < 2 ^ 64 then Inr (of_nat (digits_value 8 t)) else Inl ErrRange)"
proof -
  have "list_all (\<lambda>c. is_digit c \<and> (of_char c :: nat) - 48 < 8) t"
    using assms by (auto simp: list_all_iff is_digit_def)
  then have "ParseUint_loop 8 t 0 False =
      (if digits_value 8 t < 2 ^ 64 then Inr (of_nat (digits_value 8 t), False) else Inl ErrRange)"
    using ParseUint_loop_digits [of 8 t 0 False] by (simp add: digits_value_def)
  then show ?thesis
    by (simp add: leading_zero_base [OF assms(1)])
qed

lemma ParseUint_not_octal:
  assumes "list_all is_digit t" "\<not> list_all (\<lambda>c. (of_char c :: nat) < 56) t"
  shows "isl (ParseUint (CHR ''0'' # t))"
proof -
  have "(of_char c :: nat) - 48 < 8 \<longleftrightarrow> (of_char c :: nat) < 56" if "is_digit c" for c
    using that by (auto simp: is_digit_def)
  then have "list_all (\<lambda>c. (of_char c :: nat) - 48 < 8) t
      \<longleftrightarrow> list_all (\<lambda>c. (of_char c :: nat) < 56) t"
    using assms(1) by (auto simp: list_all_iff)
  with assms(2) have "\<not> list_all (\<lambda>c. (of_char c :: nat) - 48 < 8) t" by simp
  then have "isl (ParseUint_loop 8 t 0 False)"
    by (rule ParseUint_loop_bad_digit [OF assms(1)])
  then show ?thesis
    by (auto simp: leading_zero_base [OF assms(1)] isl_def)
qed

lemma unat_of_nat_small: "v < 2 ^ 64 \<Longrightarrow> unat (of_nat v :: 64 word) = v"
  by (simp add: unat_of_nat)

lemma ParseInt_of_ParseUint_value:
  assumes "s \<noteq> []" "is_digit (hd s)" "ParseUint s = Inr (of_nat v)" "v < 2 ^ 64"
  shows "ParseInt s = (if v < 2 ^ 63 then Inr (of_nat v) else Inl ErrRange)"
proof -
  have sign: "hd s \<noteq> CHR ''+''" "hd s \<noteq> CHR ''-''"
    using assms(2) by (auto simp: is_digit_def)
  have "(2 ^ 63 \<le> (of_nat v :: 64 word)) = (2 ^ 63 \<le> v)"
    by (simp add: word_le_nat_alt unat_of_nat_small [OF assms(4)])
  with assms(1,3) sign show ?thesis
    by (auto simp: ParseInt_def)
qed

lemma ParseInt_of_ParseUint_error:
  assumes "s \<noteq> []" "is_digit (hd s)" "isl (ParseUint s)"
  shows "isl (ParseInt s)"
proof -
  have sign: "hd s \<noteq> CHR ''+''" "hd s \<noteq> CHR ''-''"
    using assms(2) by (auto simp: is_digit_def)
  obtain e where e: "ParseUint s = Inl e" using assms(3) by (auto simp: isl_def)
  have "(2 ^ 63 :: 64 word) \<le> - 1" by simp
  with assms(1) sign e show ?thesis
    by (cases e) (simp_all add: ParseInt_def)
qed

lemma quote_byte_digit:
  assumes "is_digit c"
  shows "quote_byte c = [c]"
proof -
  have r: "48 \<le> (of_char c :: nat)" "(of_char c :: nat) \<le> 57"
    using assms by (simp_all add: is_digit_def)
  have "c \<noteq> CHR 0x22" "c \<noteq> CHR 0x5C" "c \<noteq> CHR 0x07" "c \<noteq> CHR 0x08" "c \<noteq> CHR 0x0C"
    "c \<noteq> CHR 0x0A" "c \<noteq> CHR 0x0D" "c \<noteq> CHR 0x09" "c \<noteq> CHR 0x0B"
    using r by auto
  moreover have "\<not> ((of_char c :: nat) < 32 \<or> (of_char c :: nat) = 127)"
    using r by simp
  ultimately show ?thesis
    by (simp only: quote_byte_def if_False)
qed

lemma fmt_q_digits: "list_all is_digit s \<Longrightarrow> fmt_q s = CHR 0x22 # s @ [CHR 0x22]"
proof -
  assume "list_all is_digit s"
  then have "concat (map quote_byte s) = s"
    by (induction s) (simp_all add: quote_byte_digit)
  then show ?thesis by (simp add: fmt_q_def)
qed

lemma sint_of_nat_small:
  assumes "v < 2 ^ 63"
  shows "sint (of_nat v :: 64 word) = int v"
  using assms by (simp add: signed_of_nat signed_take_bit_int_eq_self)

lemma ParseInt_decimal:
  assumes "s \<noteq> []" "list_all is_digit s" "hd s \<noteq> CHR ''0''"
  shows "if digits_value 10 s < 2 ^ 63 then ParseInt s = Inr (of_nat (digits_value 10 s))
         else isl (ParseInt s)"
proof -
  have hd: "is_digit (hd s)" using assms(1,2) by (cases s) simp_all
  show ?thesis
  proof (cases "digits_value 10 s < 2 ^ 64")
    case True
    then have "ParseUint s = Inr (of_nat (digits_value 10 s))"
      by (simp add: ParseUint_decimal [OF assms])
    from ParseInt_of_ParseUint_value [OF assms(1) hd this True] show ?thesis by simp
  next
    case False
    then have "isl (ParseUint s)" by (simp add: ParseUint_decimal [OF assms])
    from ParseInt_of_ParseUint_error [OF assms(1) hd this] False show ?thesis by simp
  qed
qed

lemma ParseInt_leading_zero:
  assumes "list_all is_digit t"
  shows "if list_all (\<lambda>c. (of_char c :: nat) < 56) t \<and> digits_value 8 t < 2 ^ 63
         then ParseInt (CHR ''0'' # t) = Inr (of_nat (digits_value 8 t))
         else isl (ParseInt (CHR ''0'' # t))"
proof -
  have ne: "CHR ''0'' # t \<noteq> []" by simp
  have hd: "is_digit (hd (CHR ''0'' # t))" by (simp add: is_digit_def)
  show ?thesis
  proof (cases "list_all (\<lambda>c. (of_char c :: nat) < 56) t")
    case oct: True
    show ?thesis
    proof (cases "digits_value 8 t < 2 ^ 64")
      case True
      then have "ParseUint (CHR ''0'' # t) = Inr (of_nat (digits_value 8 t))"
        by (simp add: ParseUint_octal [OF assms oct])
      from ParseInt_of_ParseUint_value [OF ne hd this True] oct show ?thesis by simp
    next
      case False
      then have "isl (ParseUint (CHR ''0'' # t))" by (simp add: ParseUint_octal [OF assms oct])
      from ParseInt_of_ParseUint_error [OF ne hd this] False show ?thesis by simp
    qed
  next
    case False
    from ParseInt_of_ParseUint_error [OF ne hd ParseUint_not_octal [OF assms False]] False
    show ?thesis by simp
  qed
qed

lemma parseIntegerLiteral_value:
  "ParseInt (Literal (curToken p)) = Inr v \<Longrightarrow> parseIntegerLiteral p = (Some (IntegerLiteral v), p)"
  by (simp add: parseIntegerLiteral_def)

lemma parseIntegerLiteral_error:
  "isl (ParseInt (Literal (curToken p))) \<Longrightarrow>
   parseIntegerLiteral p =
     (None, p\<lparr>errors := errors p @ [msg_cannot_parse (fmt_q (Literal (curToken p)))]\<rparr>)"
  by (auto simp: parseIntegerLiteral_def isl_def)

text \<open>
  C4, amended.  For a lexeme that is a non-empty string of decimal digits,
  \<^verbatim>\<open>ParseInt\<close> with base 0 reads it in decimal when it does not start with
  \<^verbatim>\<open>0\<close>, and reads the digits after a leading \<^verbatim>\<open>0\<close> in octal.  The parser
  returns the integer literal of that value when the digits are digits of the base and the
  value is below \<open>2 ^ 63\<close> (then the word \<open>of_nat v\<close> has the signed value \<open>v\<close>,
  lemma \<open>sint_of_nat_small\<close>); otherwise it returns no expression and appends the
  source's message, in Chinese, around the quoted lexeme.
\<close>

theorem integer_literal_parsing:
  assumes "Literal (curToken p) = lexeme" "lexeme \<noteq> []" "list_all is_digit lexeme"
  shows "parseIntegerLiteral p =
     (if hd lexeme \<noteq> CHR ''0'' then
        (if digits_value 10 lexeme < 2 ^ 63
         then (Some (IntegerLiteral (of_nat (digits_value 10 lexeme))), p)
         else (None, p\<lparr>errors := errors p @ [msg_cannot_parse (CHR 0x22 # lexeme @ [CHR 0x22])]\<rparr>))
      else
        (if list_all (\<lambda>c. (of_char c :: nat) < 56) (tl lexeme) \<and> digits_value 8 (tl lexeme) < 2 ^ 63
         then (Some (IntegerLiteral (of_nat (digits_value 8 (tl lexeme)))), p)
         else (None, p\<lparr>errors := errors p @ [msg_cannot_parse (CHR 0x22 # lexeme @ [CHR 0x22])]\<rparr>)))"
proof (cases "hd lexeme = CHR ''0''")
  case False
  from ParseInt_decimal [OF assms(2,3) False] False show ?thesis
    by (auto simp: assms(1) parseIntegerLiteral_value parseIntegerLiteral_error
        fmt_q_digits [OF assms(3)] split: if_splits)
next
  case True
  with assms(2) have lex: "lexeme = CHR ''0'' # tl lexeme" by (cases lexeme) simp_all
  have "list_all is_digit (tl lexeme)" using assms(2,3) by (cases lexeme) simp_all
  from ParseInt_leading_zero [OF this] True show ?thesis
    unfolding lex [symmetric]
    by (auto simp: assms(1) parseIntegerLiteral_value parseIntegerLiteral_error
        fmt_q_digits [OF assms(3)] split: if_splits)
qed

text \<open>
  C4 as stated fails: the lexeme \<^verbatim>\<open>010\<close> gives the integer literal 8, not 10, and
  the lexeme \<^verbatim>\<open>09\<close>, whose decimal value fits, gives no expression and an error;
  the message is not the text ``cannot parse "09" as integer''.
\<close>

theorem integer_literal_counterexample:
  "parseIntegerLiteral (parser_at_INT ''010'') = (Some (IntegerLiteral 8), parser_at_INT ''010'')
   \<and> fst (parseIntegerLiteral (parser_at_INT ''09'')) = None
   \<and> errors (snd (parseIntegerLiteral (parser_at_INT ''09'')))
       = [msg_cannot_parse [CHR 0x22, CHR ''0'', CHR ''9'', CHR 0x22]]"
  by (simp add: parseIntegerLiteral_def parser_at_INT_def ParseInt_def ParseUint_def cutoff_def
      digit_of_def lower_def Let_def word_le_nat_alt word_less_nat_alt fmt_q_def quote_byte_def)

theorem integer_literal_parsing_witness:
  "Literal (curToken (parser_at_INT ''42'')) = ''42'' \<and> ''42'' \<noteq> [] \<and> list_all is_digit ''42''
   \<and> parseIntegerLiteral (parser_at_INT ''42'') = (Some (IntegerLiteral 42), parser_at_INT ''42'')
   \<and> Literal (curToken (parser_at_INT ''017'')) = ''017'' \<and> list_all is_digit ''017''
   \<and> parseIntegerLiteral (parser_at_INT ''017'') = (Some (IntegerLiteral 15), parser_at_INT ''017'')"
proof -
  have a: "Literal (curToken (parser_at_INT ''42'')) = ''42''" by (simp add: parser_at_INT_def)
  have b: "''42'' \<noteq> []" by simp
  have c: "list_all is_digit ''42''" by (simp add: is_digit_def)
  have a': "Literal (curToken (parser_at_INT ''017'')) = ''017''" by (simp add: parser_at_INT_def)
  have b': "''017'' \<noteq> []" by simp
  have c': "list_all is_digit ''017''" by (simp add: is_digit_def)
  show ?thesis
    using a c a' c' integer_literal_parsing [OF a b c] integer_literal_parsing [OF a' b' c']
    by (simp add: digits_value_def)
qed

end
